theory Spec2Isabelle
  imports Complex_Main "HOL-Library.Word"
begin

unbundle bit_operations_syntax

section \<open>JavaScript values used by the request-security code\<close>

text \<open>
  Strings are modelled as \<open>string\<close>: every character is one code unit below 256, which
  covers the ASCII header values, addresses and decimal numerals the code handles.
  \<open>x || ''\<close> on a header that may be undefined is \<open>orEmpty\<close>; a string is falsy
  exactly when it is empty.
\<close>

definition orEmpty :: "string option \<Rightarrow> string" where
  "orEmpty x = (case x of None \<Rightarrow> [] | Some s \<Rightarrow> s)"

definition lower_char :: "char \<Rightarrow> char" where
  "lower_char c =
     (let n = (of_char c :: nat) in if 65 \<le> n \<and> n \<le> 90 then char_of (n + 32) else c)"

definition toLowerCase :: "string \<Rightarrow> string" where
  "toLowerCase s = map lower_char s"

fun starts_with :: "string \<Rightarrow> string \<Rightarrow> bool" where
  "starts_with [] s = True"
| "starts_with (p # ps) [] = False"
| "starts_with (p # ps) (c # cs) = (p = c \<and> starts_with ps cs)"

fun contains :: "string \<Rightarrow> string \<Rightarrow> bool" where
  "contains p [] = starts_with p []"
| "contains p (c # cs) = (starts_with p (c # cs) \<or> contains p cs)"

text \<open>
  \<open>/word/i.test(s)\<close> for a pattern that is a plain word: the word occurs somewhere in
  \<open>s\<close>, letters compared without case.
\<close>

definition regex_test_i :: "string \<Rightarrow> string \<Rightarrow> bool" where
  "regex_test_i pat s = contains (toLowerCase pat) (toLowerCase s)"

text \<open>Decimal printing of integers, as \<open>String(h)\<close> and \<open>n.toString()\<close> do.\<close>

definition digit_char :: "nat \<Rightarrow> char" where
  "digit_char d = char_of (48 + d)"

fun show_nat :: "nat \<Rightarrow> string" where
  "show_nat n = (if n < 10 then [digit_char n] else show_nat (n div 10) @ [digit_char (n mod 10)])"

declare show_nat.simps [simp del]

definition show_int :: "int \<Rightarrow> string" where
  "show_int i = (if i < 0 then CHR ''-'' # show_nat (nat (- i)) else show_nat (nat i))"

text \<open>
  A JSON value of a request or response body, \<open>null\<close> apart: a member or an array
  element that is missing or \<open>null\<close> is \<open>None\<close> of \<open>jsvalue option\<close>. \<open>JNum n\<close> is
  the number with the integer value \<open>n\<close>; its string form is the plain decimal, which is
  what JavaScript prints for integers of magnitude below \<open>10^21\<close>. \<open>JDec s\<close> is any
  other number in a request, a fraction or a larger magnitude, given by the text \<open>s\<close>
  that JavaScript prints for it; that text holds a \<open>.\<close> or an \<open>e\<close>, or is an infinity
  (\<open>dec_text\<close>). An object is taken without a member of its own named \<open>toString\<close>
  (with one, printing it throws).
\<close>

datatype jsvalue =
    JBool bool
  | JNum int
  | JDec string
  | JStr string
  | JArr "jsvalue option list"
  | JObj "(string \<times> jsvalue option) list"

definition dec_text :: "string \<Rightarrow> bool" where
  "dec_text s =
     (CHR ''.'' \<in> set s \<or> CHR ''e'' \<in> set s \<or> s = ''Infinity'' \<or> s = ''-Infinity'')"

text \<open>\<open>!v\<close> is \<open>\<not> truthy v\<close>: arrays, objects and numbers other than zero are truthy.\<close>

fun truthy :: "jsvalue option \<Rightarrow> bool" where
  "truthy None = False"
| "truthy (Some (JBool b)) = b"
| "truthy (Some (JNum n)) = (n \<noteq> 0)"
| "truthy (Some (JDec s)) = True"
| "truthy (Some (JStr s)) = (s \<noteq> [])"
| "truthy (Some (JArr xs)) = True"
| "truthy (Some (JObj ms)) = True"

text \<open>
  \<open>v.toString()\<close>. An array prints its elements joined by commas, \<open>null\<close> elements as
  the empty string; an object prints \<open>[object Object]\<close>.
\<close>

fun join :: "string list \<Rightarrow> string" where
  "join [] = []"
| "join [s] = s"
| "join (s # t # ts) = s @ '','' @ join (t # ts)"

primrec toString :: "jsvalue \<Rightarrow> string" where
  "toString (JBool b) = (if b then ''true'' else ''false'')"
| "toString (JNum n) = show_int n"
| "toString (JDec s) = s"
| "toString (JStr s) = s"
| "toString (JArr xs) = join (map orEmpty (map (map_option toString) xs))"
| "toString (JObj ms) = ''[object Object]''"

text \<open>A number, as a request body can carry one.\<close>

definition is_number :: "jsvalue \<Rightarrow> bool" where
  "is_number v =
     (case v of JNum n \<Rightarrow> True | JDec s \<Rightarrow> dec_text s | JBool b \<Rightarrow> False | JStr s \<Rightarrow> False
      | JArr xs \<Rightarrow> False | JObj ms \<Rightarrow> False)"

section \<open>Requests and responses\<close>

text \<open>
  The part of an Express request the code reads: the address, path and method, the
  headers (keyed by lower-case name, as Node stores them), the route parameter \<open>:id\<close>,
  the two body members of the verification endpoint, and the two marks the middleware
  sets.
\<close>

record request =
  req_ip :: string
  req_path :: string
  req_method :: string
  req_headers :: "string \<rightharpoonup> string"
  req_params_id :: string
  body_challengeId :: "string option"
  body_solution :: "jsvalue option"
  suspiciousActivity :: "bool option"
  req_botScore :: "int option"

text \<open>
  Express's \<open>req.get(name)\<close>: the name is lower-cased, and \<open>referer\<close> and
  \<open>referrer\<close> both answer \<open>headers.referrer || headers.referer\<close>.
\<close>

definition req_get :: "request \<Rightarrow> string \<Rightarrow> string option" where
  "req_get req name =
     (let lc = toLowerCase name in
      if lc = ''referer'' \<or> lc = ''referrer''
      then (case req_headers req ''referrer'' of
              None \<Rightarrow> req_headers req ''referer''
            | Some r \<Rightarrow> if r = [] then req_headers req ''referer'' else Some r)
      else req_headers req lc)"

record response =
  status :: nat
  body :: "(string \<times> jsvalue option) list"

section \<open>Heuristic scorer\<close>

definition botPatterns :: "string list" where
  "botPatterns =
     [''bot'', ''crawler'', ''spider'', ''scraper'', ''curl'', ''wget'',
      ''python'', ''java'', ''apache'', ''http'', ''libwww'', ''perl'',
      ''php'', ''ruby'', ''go-http'', ''node'', ''axios'', ''requests'']"

text \<open>The loop over \<open>botPatterns\<close>: the first pattern that matches adds 30 and breaks.\<close>

fun pattern_loop :: "string list \<Rightarrow> string \<Rightarrow> int \<Rightarrow> int" where
  "pattern_loop [] userAgent score = score"
| "pattern_loop (pattern # rest) userAgent score =
     (if regex_test_i pattern userAgent then score + 30 else pattern_loop rest userAgent score)"

definition browser_tokens :: "string list" where
  "browser_tokens = [''Mozilla'', ''Chrome'', ''Safari'', ''Firefox'', ''Edge'']"

text \<open>\<open>if (cond) score += n\<close>.\<close>

definition add_if :: "bool \<Rightarrow> int \<Rightarrow> int \<Rightarrow> int" where
  "add_if cond n score = (if cond then score + n else score)"

definition calculateBotScore :: "request \<Rightarrow> int" where
  "calculateBotScore req =
     (let userAgent = orEmpty (req_get req ''user-agent'');
          accept = orEmpty (req_get req ''accept'');
          acceptLanguage = orEmpty (req_get req ''accept-language'');
          acceptEncoding = orEmpty (req_get req ''accept-encoding'');
          connection = orEmpty (req_get req ''connection'');
          s0 = pattern_loop botPatterns userAgent 0;
          s1 = add_if (accept = [] \<or> accept = ''*/*'') 10 s0;
          s2 = add_if (acceptLanguage = []) 15 s1;
          s3 = add_if (acceptEncoding = []) 10 s2;
          s4 = add_if (userAgent = []) 25 s3;
          s5 = add_if (length userAgent < 20) 20 s4;
          s6 = add_if (\<not> list_ex (\<lambda>t. regex_test_i t userAgent) browser_tokens
                        \<and> userAgent \<noteq> []) 15 s5;
          s7 = add_if (orEmpty (req_get req ''referer'') = [] \<and> req_path req \<noteq> ''/'') 5 s6;
          s8 = add_if (toLowerCase connection = ''close'') 5 s7;
          s9 = add_if (orEmpty (req_get req ''x-requested-with'') = []
                        \<and> req_method req = ''POST'') 5 s8
      in min s9 100)"

text \<open>A user-agent that carries a known automation-tool signature.\<close>

definition automation_signature :: "string \<Rightarrow> bool" where
  "automation_signature userAgent = list_ex (\<lambda>p. regex_test_i p userAgent) botPatterns"

section \<open>Fingerprints\<close>

text \<open>
  \<open>simpleHash\<close>: \<open>h = (h << 5) - h + str.charCodeAt(i); h |= 0\<close> over the string,
  a signed 32-bit value printed in decimal.
\<close>

fun hash_loop :: "string \<Rightarrow> 32 word \<Rightarrow> 32 word" where
  "hash_loop [] h = h"
| "hash_loop (c # cs) h = hash_loop cs (push_bit 5 h - h + of_nat (of_char c))"

definition simpleHash :: "string \<Rightarrow> string" where
  "simpleHash str = show_int (sint (hash_loop str 0))"

text \<open>
  \<open>UAParser\<close> is a library outside the repository: the functions that call it take it as
  the parameter \<open>uap\<close>, from a user-agent string to the \<open>browser\<close> and \<open>os\<close> parts
  of its result, each with the \<open>name\<close> it found (\<open>None\<close> for undefined).
\<close>

record named =
  name :: "string option"

record parser_result =
  result_browser :: named
  result_os :: named

record deviceInfo =
  di_ua :: string
  di_browser :: named
  di_os :: named

definition parseDeviceInfo :: "(string \<Rightarrow> parser_result) \<Rightarrow> request \<Rightarrow> deviceInfo" where
  "parseDeviceInfo uap req =
     (let ua = orEmpty (req_get req ''user-agent''); result = uap ua
      in \<lparr> di_ua = ua, di_browser = result_browser result, di_os = result_os result \<rparr>)"

definition generateDeviceFingerprint :: "request \<Rightarrow> deviceInfo \<Rightarrow> string" where
  "generateDeviceFingerprint req info =
     simpleHash (di_ua info @ ''|'' @ req_ip req @ ''|'' @
                 orEmpty (name (di_browser info)) @ ''|'' @
                 orEmpty (name (di_os info)) @ ''|'' @
                 orEmpty (req_get req ''accept-language''))"

text \<open>The vote route's \<open>voterFingerprint\<close>.\<close>

definition voterFingerprint :: "request \<Rightarrow> string" where
  "voterFingerprint req = simpleHash (req_ip req @ ''|'' @ orEmpty (req_get req ''user-agent''))"

section \<open>Tables\<close>

text \<open>
  A number that \<open>parseInt\<close> can return and the driver can bind: an integer value or an
  infinity.
\<close>

datatype jsint = Finite int | PosInfinity | NegInfinity

text \<open>
  Each SQLite table is the list of its rows, with the columns the security code reads or
  writes. \<open>captcha_seq\<close> is the AUTOINCREMENT counter of \<open>captcha_challenges\<close>.
  The driver's \<open>err\<close> argument is taken to be null: the database answers every statement.
  The routes are modelled one request at a time, with their statements in the order the
  code issues them; \<open>verifyCaptcha\<close> is also modelled statement by statement, for
  calls that overlap.
\<close>

record blacklist_row =
  bl_ip_address :: string
  bl_reason :: string
  blocked_until :: "string option"
  bl_created_by :: "int option"

record bot_score_row =
  bs_ip_address :: string
  bs_user_agent :: string
  device_fingerprint :: string
  bot_score :: int
  request_count :: int
  suspicious_patterns :: int

record captcha_row =
  cc_id :: nat
  challenge_id :: string
  cc_ip_address :: string
  cc_solution :: string
  solved :: bool
  expires_at :: nat

record vote_row =
  v_server_id :: jsint
  voter_hash :: string
  voted_date :: string

record server_row =
  srv_id :: int
  srv_votes :: int

record security_event =
  ev_ip_address :: string
  ev_user_id :: "int option"
  event_type :: string
  severity :: string
  details :: string
  ev_user_agent :: "string option"
  endpoint :: string

record db =
  ip_blacklist :: "blacklist_row list"
  bot_scores :: "bot_score_row list"
  captcha_challenges :: "captcha_row list"
  captcha_seq :: nat
  votes :: "vote_row list"
  servers :: "server_row list"
  security_events :: "security_event list"

definition logSecurityEvent ::
  "db \<Rightarrow> string \<Rightarrow> int option \<Rightarrow> string \<Rightarrow> string \<Rightarrow> string \<Rightarrow> string option \<Rightarrow> string \<Rightarrow> db" where
  "logSecurityEvent d ip userId eventType sev det userAgent ep =
     d\<lparr> security_events := security_events d @
          [\<lparr> ev_ip_address = ip, ev_user_id = userId, event_type = eventType, severity = sev,
             details = det, ev_user_agent = userAgent, endpoint = ep \<rparr>] \<rparr>"

section \<open>Clock readings and their text forms\<close>

text \<open>
  A UTC calendar reading. SQLite's \<open>datetime('now')\<close> prints it as
  \<open>YYYY-MM-DD HH:MM:SS\<close>; JavaScript's \<open>toISOString\<close> prints it as
  \<open>YYYY-MM-DDTHH:MM:SS.mmmZ\<close>. \<open>utc_key\<close> orders readings in time (for fields in
  their calendar ranges).
\<close>

record utc =
  year :: nat
  month :: nat
  day :: nat
  hour :: nat
  minute :: nat
  second :: nat
  millis :: nat

definition pad :: "nat \<Rightarrow> nat \<Rightarrow> string" where
  "pad k n = replicate (k - length (show_nat n)) (CHR ''0'') @ show_nat n"

definition sqlite_datetime :: "utc \<Rightarrow> string" where
  "sqlite_datetime t =
     pad 4 (year t) @ ''-'' @ pad 2 (month t) @ ''-'' @ pad 2 (day t) @ '' '' @
     pad 2 (hour t) @ '':'' @ pad 2 (minute t) @ '':'' @ pad 2 (second t)"

definition toISOString :: "utc \<Rightarrow> string" where
  "toISOString t =
     pad 4 (year t) @ ''-'' @ pad 2 (month t) @ ''-'' @ pad 2 (day t) @ ''T'' @
     pad 2 (hour t) @ '':'' @ pad 2 (minute t) @ '':'' @ pad 2 (second t) @
     ''.'' @ pad 3 (millis t) @ ''Z''"

definition utc_key :: "utc \<Rightarrow> nat" where
  "utc_key t =
     (((((year t * 13 + month t) * 32 + day t) * 24 + hour t) * 60 + minute t) * 60 + second t)
       * 1000 + millis t"

definition utc_before :: "utc \<Rightarrow> utc \<Rightarrow> bool" where
  "utc_before a b = (utc_key a < utc_key b)"

text \<open>
  SQLite compares two TEXT values byte by byte (the BINARY collation): \<open>text_less a b\<close>
  is \<open>a < b\<close> there.
\<close>

fun text_less :: "string \<Rightarrow> string \<Rightarrow> bool" where
  "text_less [] [] = False"
| "text_less [] (y # ys) = True"
| "text_less (x # xs) [] = False"
| "text_less (x # xs) (y # ys) =
     ((of_char x :: nat) < of_char y \<or> (x = y \<and> text_less xs ys))"

section \<open>Blacklist guard\<close>

text \<open>
  \<open>SELECT * FROM ip_blacklist WHERE ip_address = ? AND (blocked_until IS NULL OR
  blocked_until > datetime("now"))\<close>, resolved to \<open>!!row\<close>. The parameter \<open>now\<close> is the
  text \<open>datetime("now")\<close> returns; \<open>blocked_until\<close> holds text, so the comparison is
  SQLite's text comparison.
\<close>

definition active_entry :: "string \<Rightarrow> string \<Rightarrow> blacklist_row \<Rightarrow> bool" where
  "active_entry now ip r =
     (bl_ip_address r = ip \<and>
      (case blocked_until r of None \<Rightarrow> True | Some until \<Rightarrow> text_less now until))"

definition isBlacklisted :: "db \<Rightarrow> string \<Rightarrow> string \<Rightarrow> bool" where
  "isBlacklisted d now ip = (find (active_entry now ip) (ip_blacklist d) \<noteq> None)"

text \<open>
  The admin route \<open>POST /api/security/blacklist\<close> after its checks:
  \<open>blockedUntil = duration ? new Date(Date.now() + duration * 60000).toISOString() : null\<close>
  and \<open>INSERT OR REPLACE\<close> on the unique address. \<open>until\<close> is the calendar reading
  of that date, \<open>None\<close> when no duration is given.
\<close>

definition blacklist_insert :: "db \<Rightarrow> string \<Rightarrow> string \<Rightarrow> utc option \<Rightarrow> int option \<Rightarrow> db" where
  "blacklist_insert d ip reason until admin =
     d\<lparr> ip_blacklist := filter (\<lambda>r. bl_ip_address r \<noteq> ip) (ip_blacklist d) @
          [\<lparr> bl_ip_address = ip, bl_reason = reason,
             blocked_until = map_option toISOString until, bl_created_by = admin \<rparr>] \<rparr>"

section \<open>Reputation store\<close>

text \<open>
  \<open>updateBotScore\<close>: \<open>INSERT OR REPLACE INTO bot_scores\<close> with the two counters read
  back through \<open>COALESCE((SELECT ...), 0)\<close>; the row that conflicts on
  \<open>UNIQUE(ip_address, user_agent)\<close> is deleted and the new one appended.
\<close>

definition same_key :: "string \<Rightarrow> string \<Rightarrow> bot_score_row \<Rightarrow> bool" where
  "same_key ip userAgent r = (bs_ip_address r = ip \<and> bs_user_agent r = userAgent)"

definition select_bot_score :: "db \<Rightarrow> string \<Rightarrow> string \<Rightarrow> bot_score_row option" where
  "select_bot_score d ip userAgent = find (same_key ip userAgent) (bot_scores d)"

definition coalesce0 :: "(bot_score_row \<Rightarrow> int) \<Rightarrow> bot_score_row option \<Rightarrow> int" where
  "coalesce0 col r = (case r of None \<Rightarrow> 0 | Some x \<Rightarrow> col x)"

definition updateBotScore :: "(string \<Rightarrow> parser_result) \<Rightarrow> db \<Rightarrow> request \<Rightarrow> db \<times> int" where
  "updateBotScore uap d req =
     (let ip = req_ip req;
          userAgent = orEmpty (req_get req ''user-agent'');
          info = parseDeviceInfo uap req;
          fingerprint = generateDeviceFingerprint req info;
          botScore = calculateBotScore req;
          old = select_bot_score d ip userAgent;
          row = \<lparr> bs_ip_address = ip, bs_user_agent = userAgent,
                  device_fingerprint = fingerprint, bot_score = botScore,
                  request_count = coalesce0 request_count old + 1,
                  suspicious_patterns =
                    coalesce0 suspicious_patterns old + (if botScore > 50 then 1 else 0) \<rparr>
      in (d\<lparr> bot_scores := filter (\<lambda>r. \<not> same_key ip userAgent r) (bot_scores d) @ [row] \<rparr>,
          botScore))"

section \<open>Challenge manager\<close>

text \<open>
  \<open>generateSimpleCaptcha\<close>. Floating-point arithmetic is not modelled: the parameters
  \<open>k1\<close> and \<open>k2\<close> are the values of the two expressions
  \<open>Math.floor(Math.random() * 20)\<close>, integers from 0 to 19, and \<open>is_plus\<close> is the outcome of
  the test \<open>Math.random() > 0.5\<close>.
\<close>

definition generateSimpleCaptcha :: "int \<Rightarrow> int \<Rightarrow> bool \<Rightarrow> string \<times> int" where
  "generateSimpleCaptcha k1 k2 is_plus =
     (let num1 = k1 + 1;
          num2 = k2 + 1;
          operation = (if is_plus then ''+'' else ''-'');
          question = show_int num1 @ '' '' @ operation @ '' '' @ show_int num2;
          answer = (if operation = ''+'' then num1 + num2 else num1 - num2)
      in (question, answer))"

text \<open>
  \<open>createCaptchaChallenge\<close>: \<open>uuid\<close> is what \<open>uuidv4()\<close> returns and \<open>now\<close> the clock in
  seconds. Both \<open>expires_at\<close> (default \<open>datetime('now', '+5 minutes')\<close>) and the
  \<open>datetime("now")\<close> it is compared with come from SQLite in one fixed-width format, whose
  text order is the order of time, so they are modelled as seconds. The insert fails on
  a \<open>challenge_id\<close> already stored (UNIQUE), and the promise rejects: \<open>None\<close>.
\<close>

definition createCaptchaChallenge ::
  "db \<Rightarrow> nat \<Rightarrow> string \<Rightarrow> int \<Rightarrow> int \<Rightarrow> bool \<Rightarrow> string \<Rightarrow> db \<times> (string \<times> string) option" where
  "createCaptchaChallenge d now uuid k1 k2 is_plus ip =
     (let (question, answer) = generateSimpleCaptcha k1 k2 is_plus in
      if list_ex (\<lambda>c. challenge_id c = uuid) (captcha_challenges d) then (d, None)
      else (d\<lparr> captcha_challenges := captcha_challenges d @
                 [\<lparr> cc_id = captcha_seq d + 1, challenge_id = uuid, cc_ip_address = ip,
                    cc_solution = show_int answer, solved = False, expires_at = now + 300 \<rparr>],
               captcha_seq := captcha_seq d + 1 \<rparr>,
            Some (uuid, question)))"

definition live_challenge :: "nat \<Rightarrow> string \<Rightarrow> captcha_row \<Rightarrow> bool" where
  "live_challenge now challengeId c =
     (challenge_id c = challengeId \<and> now < expires_at c \<and> \<not> solved c)"

text \<open>
  \<open>verifyCaptcha\<close> issues two statements. The SELECT's callback compares the answer,
  queues \<open>UPDATE captcha_challenges SET solved = 1 WHERE id = ?\<close> without waiting for it
  when the answer is right, and resolves the promise. \<open>verify_select\<close> is the first
  statement with its callback: the value the promise resolves to and the row id of the
  queued update, if any. \<open>mark_solved\<close> is the queued update taking effect.
\<close>

definition verify_select :: "db \<Rightarrow> nat \<Rightarrow> string \<Rightarrow> jsvalue \<Rightarrow> bool \<times> nat option" where
  "verify_select d now challengeId solution =
     (case find (live_challenge now challengeId) (captcha_challenges d) of
        None \<Rightarrow> (False, None)
      | Some challenge \<Rightarrow>
          (let isCorrect = (cc_solution challenge = toString solution) in
           if isCorrect then (True, Some (cc_id challenge)) else (False, None)))"

definition mark_solved :: "db \<Rightarrow> nat option \<Rightarrow> db" where
  "mark_solved d queued =
     (case queued of
        None \<Rightarrow> d
      | Some i \<Rightarrow>
          d\<lparr> captcha_challenges :=
               map (\<lambda>c. if cc_id c = i then c\<lparr> solved := True \<rparr> else c)
                   (captcha_challenges d) \<rparr>)"

text \<open>
  A call that no other statement overlaps: its update takes effect before anything else
  reads the table.
\<close>

definition verifyCaptcha :: "db \<Rightarrow> nat \<Rightarrow> string \<Rightarrow> jsvalue \<Rightarrow> db \<times> bool" where
  "verifyCaptcha d now challengeId solution =
     (let (isCorrect, queued) = verify_select d now challengeId solution
      in (mark_solved d queued, isCorrect))"

text \<open>
  Calls that overlap. A call is \<open>Issued\<close> until its SELECT has run, then \<open>Resolved\<close>
  with its result while its update is queued, then \<open>Finished\<close>. A schedule lists, in
  order, which call's next statement the database runs; \<open>run_calls\<close> follows it.
\<close>

datatype call = Issued string jsvalue | Resolved bool "nat option" | Finished bool

fun step_call :: "nat \<Rightarrow> db \<Rightarrow> call \<Rightarrow> db \<times> call" where
  "step_call now d (Issued challengeId solution) =
     (let (isCorrect, queued) = verify_select d now challengeId solution
      in (d, Resolved isCorrect queued))"
| "step_call now d (Resolved isCorrect queued) = (mark_solved d queued, Finished isCorrect)"
| "step_call now d (Finished isCorrect) = (d, Finished isCorrect)"

fun run_calls :: "nat \<Rightarrow> nat list \<Rightarrow> db \<times> call list \<Rightarrow> db \<times> call list" where
  "run_calls now [] s = s"
| "run_calls now (i # schedule) (d, calls) =
     (if i < length calls
      then (let (d', c') = step_call now d (calls ! i)
            in run_calls now schedule (d', calls[i := c']))
      else run_calls now schedule (d, calls))"

text \<open>The value a call's promise has resolved to, once its SELECT has run.\<close>

fun resolved_to :: "call \<Rightarrow> bool option" where
  "resolved_to (Issued challengeId solution) = None"
| "resolved_to (Resolved isCorrect queued) = Some isCorrect"
| "resolved_to (Finished isCorrect) = Some isCorrect"

section \<open>Access decision pipeline\<close>

datatype outcome = Respond response | Next request

definition botDetectionMiddleware ::
  "(string \<Rightarrow> parser_result) \<Rightarrow> string \<Rightarrow> db \<Rightarrow> request \<Rightarrow> db \<times> outcome" where
  "botDetectionMiddleware uap now d req =
     (let ip = req_ip req in
      if isBlacklisted d now ip
      then (logSecurityEvent d ip None ''blocked_request'' ''high''
              ''Blacklisted IP attempted access'' (req_get req ''user-agent'') (req_path req),
            Respond \<lparr> status = 403,
                      body = [(''error'', Some (JStr ''Access denied'')),
                              (''code'', Some (JStr ''IP_BLACKLISTED''))] \<rparr>)
      else
        (let (d1, botScore) = updateBotScore uap d req in
         if botScore \<ge> 80
         then (logSecurityEvent d1 ip None ''bot_detected'' ''high''
                 (''High bot score: '' @ show_int botScore)
                 (req_get req ''user-agent'') (req_path req),
               Respond \<lparr> status = 429,
                         body = [(''error'', Some (JStr
                                   ''Suspicious activity detected. Please complete CAPTCHA verification.'')),
                                 (''code'', Some (JStr ''CAPTCHA_REQUIRED'')),
                                 (''botScore'', Some (JNum botScore))] \<rparr>)
         else if botScore \<ge> 60
         then (logSecurityEvent d1 ip None ''suspicious_behavior'' ''medium''
                 (''Medium bot score: '' @ show_int botScore)
                 (req_get req ''user-agent'') (req_path req),
               Next (req\<lparr> suspiciousActivity := Some True, req_botScore := Some botScore \<rparr>))
         else (d1, Next (req\<lparr> req_botScore := Some botScore \<rparr>))))"

section \<open>Challenge routes\<close>

text \<open>\<open>GET /api/security/captcha\<close>.\<close>

definition captcha_issue ::
  "db \<Rightarrow> nat \<Rightarrow> string \<Rightarrow> int \<Rightarrow> int \<Rightarrow> bool \<Rightarrow> request \<Rightarrow> db \<times> response" where
  "captcha_issue d now uuid k1 k2 is_plus req =
     (case createCaptchaChallenge d now uuid k1 k2 is_plus (req_ip req) of
        (d1, Some (challengeId, question)) \<Rightarrow>
          (d1, \<lparr> status = 200,
                 body = [(''challengeId'', Some (JStr challengeId)),
                         (''question'', Some (JStr question))] \<rparr>)
      | (d1, None) \<Rightarrow>
          (d1, \<lparr> status = 500,
                 body = [(''error'', Some (JStr ''Failed to create CAPTCHA challenge''))] \<rparr>))"

text \<open>
  \<open>POST /api/security/captcha/verify\<close>. \<open>!challengeId || !solution\<close> answers 400 before
  \<open>verifyCaptcha\<close> is called; on success the \<open>UPDATE bot_scores ... WHERE ip_address = ?\<close>
  runs with \<open>req.ip\<close>.
\<close>

definition amnesty :: "string \<Rightarrow> bot_score_row \<Rightarrow> bot_score_row" where
  "amnesty ip r =
     (if bs_ip_address r = ip
      then r\<lparr> bot_score := (if bot_score r > 30 then bot_score r - 30 else 0) \<rparr>
      else r)"

definition captcha_verify :: "db \<Rightarrow> nat \<Rightarrow> request \<Rightarrow> db \<times> response" where
  "captcha_verify d now req =
     (if \<not> truthy (map_option JStr (body_challengeId req)) \<or> \<not> truthy (body_solution req)
      then (d, \<lparr> status = 400,
                  body = [(''error'', Some (JStr ''Challenge ID and solution are required''))] \<rparr>)
      else
        (let (d1, isValid) =
               verifyCaptcha d now (the (body_challengeId req)) (the (body_solution req)) in
         if isValid
         then (d1\<lparr> bot_scores := map (amnesty (req_ip req)) (bot_scores d1) \<rparr>,
               \<lparr> status = 200,
                 body = [(''valid'', Some (JBool True)),
                         (''message'', Some (JStr ''CAPTCHA verified successfully''))] \<rparr>)
         else (d1, \<lparr> status = 400,
                      body = [(''valid'', Some (JBool False)),
                              (''error'', Some (JStr ''Invalid CAPTCHA solution''))] \<rparr>)))"

section \<open>Abuse-window guard: the vote route\<close>

text \<open>
  \<open>parseInt(s, 10)\<close>. The result is a JavaScript number: \<open>None\<close> is NaN; otherwise the
  integer the digits denote, rounded to the nearest double (ties to even) once it needs
  more than 53 bits, and an infinity from \<open>2^1024\<close> on.
\<close>

definition is_space :: "char \<Rightarrow> bool" where
  "is_space c = ((of_char c :: nat) \<in> {9, 10, 11, 12, 13, 32, 160})"

definition is_digit :: "char \<Rightarrow> bool" where
  "is_digit c = (48 \<le> (of_char c :: nat) \<and> (of_char c :: nat) \<le> 57)"

definition digits_value :: "string \<Rightarrow> nat" where
  "digits_value ds = foldl (\<lambda>a c. 10 * a + (of_char c - 48)) 0 ds"

fun bit_length :: "nat \<Rightarrow> nat" where
  "bit_length n = (if n = 0 then 0 else Suc (bit_length (n div 2)))"

declare bit_length.simps [simp del]

definition to_double :: "nat \<Rightarrow> nat option" where
  "to_double n =
     (if n < 2 ^ 53 then Some n
      else
        (let e = bit_length n - 53;
             q = n div 2 ^ e;
             r = n mod 2 ^ e;
             half = 2 ^ (e - 1);
             m = (if half < r \<or> (r = half \<and> odd q) then q + 1 else q)
         in if 2 ^ 1024 \<le> m * 2 ^ e then None else Some (m * 2 ^ e)))"

definition parseInt :: "string \<Rightarrow> jsint option" where
  "parseInt s =
     (let t = dropWhile is_space s;
          neg = (t \<noteq> [] \<and> hd t = CHR ''-'');
          u = (if t \<noteq> [] \<and> (hd t = CHR ''-'' \<or> hd t = CHR ''+'') then tl t else t);
          ds = takeWhile is_digit u
      in if ds = [] then None
         else (case to_double (digits_value ds) of
                 None \<Rightarrow> Some (if neg then NegInfinity else PosInfinity)
               | Some v \<Rightarrow> Some (Finite (if neg then - int v else int v))))"

text \<open>
  \<open>POST /api/servers/:id/vote\<close> after its middlewares. \<open>today\<close> is
  \<open>strftime('%Y-%m-%d', CURRENT_TIMESTAMP)\<close>. \<open>INSERT OR IGNORE\<close> changes nothing when a
  row with the same \<open>(server_id, voter_hash, voted_date)\<close> is stored. The bound
  \<open>serverId\<close> is whatever number \<open>parseInt\<close> gave; a server row, whose id is an
  integer, matches it when the number is that integer. \<open>res.json\<close> writes an infinity as
  \<open>null\<close>.
\<close>

definition same_vote :: "jsint \<Rightarrow> string \<Rightarrow> string \<Rightarrow> vote_row \<Rightarrow> bool" where
  "same_vote serverId fp today v =
     (v_server_id v = serverId \<and> voter_hash v = fp \<and> voted_date v = today)"

definition vote :: "db \<Rightarrow> string \<Rightarrow> request \<Rightarrow> db \<times> response" where
  "vote d today req =
     (case parseInt (req_params_id req) of
        None \<Rightarrow> (d, \<lparr> status = 400, body = [(''error'', Some (JStr ''Invalid server id''))] \<rparr>)
      | Some serverId \<Rightarrow>
          (let fp = voterFingerprint req in
           if list_ex (same_vote serverId fp today) (votes d)
           then (d, \<lparr> status = 429,
                       body = [(''error'', Some (JStr
                         ''You can only vote once per day for this server from this device.''))] \<rparr>)
           else
             (let d1 = d\<lparr> votes := votes d @
                        [\<lparr> v_server_id = serverId, voter_hash = fp, voted_date = today \<rparr>] \<rparr>;
                  d2 = d1\<lparr> servers :=
                         map (\<lambda>s. if Finite (srv_id s) = serverId
                                  then s\<lparr> srv_votes := srv_votes s + 1 \<rparr> else s)
                             (servers d1) \<rparr>;
                  row = find (\<lambda>s. Finite (srv_id s) = serverId) (servers d2)
              in (d2, \<lparr> status = 200,
                        body = [(''success'', Some (JBool True)),
                                (''server_id'',
                                   (case serverId of Finite n \<Rightarrow> Some (JNum n)
                                    | PosInfinity \<Rightarrow> None | NegInfinity \<Rightarrow> None)),
                                (''votes'', map_option (\<lambda>s. JNum (srv_votes s)) row)] \<rparr>))))"

section \<open>Example requests and states\<close>

definition no_parser :: "string \<Rightarrow> parser_result" where
  "no_parser ua = \<lparr> result_browser = \<lparr> name = None \<rparr>, result_os = \<lparr> name = None \<rparr> \<rparr>"

definition empty_db :: db where
  "empty_db = \<lparr> ip_blacklist = [], bot_scores = [], captcha_challenges = [], captcha_seq = 0,
                votes = [], servers = [], security_events = [] \<rparr>"

definition plain_request :: request where
  "plain_request =
     \<lparr> req_ip = ''198.51.100.4'', req_path = ''/'', req_method = ''GET'',
       req_headers = Map.empty, req_params_id = [], body_challengeId = None,
       body_solution = None, suspiciousActivity = None, req_botScore = None \<rparr>"

text \<open>A crawler that announces itself inside a browser-style user-agent.\<close>

definition googlebot_request :: request where
  "googlebot_request = plain_request
     \<lparr> req_ip := ''66.249.66.1'',
       req_headers :=
         [''user-agent'' \<mapsto>
            ''Mozilla/5.0 (compatible; Googlebot/2.1; +http://www.google.com/bot.html)'',
          ''accept'' \<mapsto> ''text/html'',
          ''accept-encoding'' \<mapsto> ''gzip''] \<rparr>"

text \<open>\<open>curl\<close> posting with no header but its user-agent.\<close>

definition curl_request :: request where
  "curl_request = plain_request
     \<lparr> req_path := ''/api/auth/login'', req_method := ''POST'',
       req_headers := [''user-agent'' \<mapsto> ''curl/7.68.0''] \<rparr>"

text \<open>A scripted client with a bare user-agent and no Accept-Language.\<close>

definition script_request :: request where
  "script_request = plain_request
     \<lparr> req_path := ''/api/auth/login'', req_method := ''POST'',
       req_headers :=
         [''user-agent'' \<mapsto> ''python-requests/2.31.0'',
          ''accept'' \<mapsto> ''application/json'',
          ''accept-encoding'' \<mapsto> ''gzip''] \<rparr>"

text \<open>A desktop browser submitting a form through XHR.\<close>

definition browser_request :: request where
  "browser_request = plain_request
     \<lparr> req_path := ''/api/auth/login'', req_method := ''POST'',
       req_headers :=
         [''user-agent'' \<mapsto>
            ''Mozilla/5.0 (X11; Linux x86_64; rv:109.0) Gecko/20100101 Firefox/115.0'',
          ''accept'' \<mapsto> ''application/json'',
          ''accept-language'' \<mapsto> ''en-US,en;q=0.5'',
          ''accept-encoding'' \<mapsto> ''gzip, deflate, br'',
          ''referer'' \<mapsto> ''https://example.org/login'',
          ''connection'' \<mapsto> ''keep-alive'',
          ''x-requested-with'' \<mapsto> ''XMLHttpRequest''] \<rparr>"


text \<open>The reputation table after one observation of the scripted client.\<close>

definition once_seen :: db where
  "once_seen = fst (updateBotScore no_parser empty_db script_request)"

text \<open>
  A state with stored reputation for two addresses, and the same state after a challenge
  was issued to the first address at second 1000 (\<open>7 + 3\<close>, solution \<open>10\<close>).
\<close>

definition reputation_db :: db where
  "reputation_db = empty_db
     \<lparr> bot_scores :=
         [\<lparr> bs_ip_address = ''10.0.0.1'', bs_user_agent = ''curl/7.68.0'',
            device_fingerprint = ''1'', bot_score = 90, request_count = 4,
            suspicious_patterns = 4 \<rparr>,
          \<lparr> bs_ip_address = ''10.0.0.1'', bs_user_agent = ''Mozilla/5.0'',
            device_fingerprint = ''2'', bot_score = 20, request_count = 1,
            suspicious_patterns = 0 \<rparr>,
          \<lparr> bs_ip_address = ''10.0.0.2'', bs_user_agent = ''curl/7.68.0'',
            device_fingerprint = ''3'', bot_score = 85, request_count = 2,
            suspicious_patterns = 2 \<rparr>] \<rparr>"

definition issued_db :: db where
  "issued_db =
     fst (createCaptchaChallenge reputation_db 1000 ''6f1c'' 6 2 True ''10.0.0.1'')"

text \<open>The answer to that challenge, sent from an address and with a solution to choose.\<close>

definition answer_request :: "string \<Rightarrow> jsvalue \<Rightarrow> request" where
  "answer_request ip sol = plain_request
     \<lparr> req_ip := ip, req_path := ''/api/security/captcha/verify'', req_method := ''POST'',
       body_challengeId := Some ''6f1c'', body_solution := Some sol \<rparr>"

text \<open>A challenge drawn with equal operands and the minus sign: \<open>7 - 7\<close>.\<close>

definition zero_db :: db where
  "zero_db =
     fst (createCaptchaChallenge reputation_db 1000 ''6f1c'' 6 6 False ''10.0.0.1'')"

text \<open>A parser result for a Firefox user-agent on Linux.\<close>

definition parser_firefox :: "string \<Rightarrow> parser_result" where
  "parser_firefox ua = \<lparr> result_browser = \<lparr> name = Some ''Firefox'' \<rparr>,
                         result_os = \<lparr> name = Some ''Linux'' \<rparr> \<rparr>"

text \<open>The browser of \<open>browser_request\<close> with another language preference.\<close>

definition german_request :: request where
  "german_request = browser_request
     \<lparr> req_headers := (req_headers browser_request)(''accept-language'' \<mapsto> ''de-DE'') \<rparr>"

text \<open>The answer to the challenge of \<open>zero_db\<close>, and a request that omits the solution.\<close>

definition zero_number_request :: request where
  "zero_number_request = answer_request ''10.0.0.1'' (JNum 0)"

definition zero_string_request :: request where
  "zero_string_request = answer_request ''10.0.0.1'' (JStr ''0'')"

text \<open>A run of vote attempts, each on the state the one before left.\<close>

fun vote_all :: "db \<Rightarrow> string \<Rightarrow> request list \<Rightarrow> db" where
  "vote_all d today [] = d"
| "vote_all d today (req # reqs) = vote_all (fst (vote d today req)) today reqs"

text \<open>Two listed servers, and the browser voting for server 7.\<close>

definition listing_db :: db where
  "listing_db = empty_db
     \<lparr> servers := [\<lparr> srv_id = 7, srv_votes = 3 \<rparr>, \<lparr> srv_id = 8, srv_votes = 0 \<rparr>] \<rparr>"

definition vote_request :: request where
  "vote_request = browser_request
     \<lparr> req_path := ''/api/servers/7/vote'', req_params_id := ''7'' \<rparr>"

text \<open>
  A one-hour ban of the browser's address set at 06:00 UTC on 2 November 2026, so
  \<open>blockedUntil\<close> is 07:00; a request arrives at 08:00 the same day, another the next
  morning.
\<close>

definition ban_until :: utc where
  "ban_until = \<lparr> year = 2026, month = 11, day = 2, hour = 7, minute = 0, second = 0,
                 millis = 0 \<rparr>"

definition request_time :: utc where
  "request_time = \<lparr> year = 2026, month = 11, day = 2, hour = 8, minute = 0, second = 0,
                    millis = 0 \<rparr>"

definition next_morning :: utc where
  "next_morning = \<lparr> year = 2026, month = 11, day = 3, hour = 8, minute = 0, second = 0,
                    millis = 0 \<rparr>"

definition banned_db :: db where
  "banned_db = blacklist_insert empty_db ''198.51.100.4'' ''spam'' (Some ban_until) (Some 1)"

definition forbidden :: response where
  "forbidden = \<lparr> status = 403,
                 body = [(''error'', Some (JStr ''Access denied'')),
                         (''code'', Some (JStr ''IP_BLACKLISTED''))] \<rparr>"

text \<open>
  Two verification calls for the challenge of \<open>issued_db\<close>, both with the right answer.
\<close>

definition two_calls :: "call list" where
  "two_calls = [Issued ''6f1c'' (JNum 10), Issued ''6f1c'' (JNum 10)]"

text \<open>The answer to the challenge of \<open>zero_db\<close> as a one-element array, and as a fraction.\<close>

definition zero_array_request :: request where
  "zero_array_request = answer_request ''10.0.0.1'' (JArr [Some (JNum 0)])"

definition fraction_request :: request where
  "fraction_request = answer_request ''10.0.0.1'' (JDec ''0.5'')"

section \<open>Evaluation of decimal printing\<close>

lemma show_nat_numeral:
  "show_nat (numeral k) =
     (if (numeral k :: nat) < 10 then [digit_char (numeral k)]
      else show_nat (numeral k div 10) @ [digit_char (numeral k mod 10)])"
  by (rule show_nat.simps)

lemma show_nat_small: "show_nat 0 = ''0''" "show_nat 1 = ''1''" "show_nat (Suc 0) = ''1''"
  by code_simp+

lemma digit_chars:
  "digit_char 0 = CHR ''0''" "digit_char 1 = CHR ''1''" "digit_char 2 = CHR ''2''"
  "digit_char 3 = CHR ''3''" "digit_char 4 = CHR ''4''" "digit_char 5 = CHR ''5''"
  "digit_char 6 = CHR ''6''" "digit_char 7 = CHR ''7''" "digit_char 8 = CHR ''8''"
  "digit_char 9 = CHR ''9''" "digit_char (Suc 0) = CHR ''1''"
  by code_simp+

lemmas show_nat_eval = show_nat_numeral show_nat_small digit_chars

section \<open>Header lookup\<close>

lemma lower_names:
  "toLowerCase ''user-agent'' = ''user-agent''"
  "toLowerCase ''accept'' = ''accept''"
  "toLowerCase ''accept-language'' = ''accept-language''"
  "toLowerCase ''accept-encoding'' = ''accept-encoding''"
  "toLowerCase ''connection'' = ''connection''"
  "toLowerCase ''x-requested-with'' = ''x-requested-with''"
  "toLowerCase ''referer'' = ''referer''"
  by (simp_all add: toLowerCase_def lower_char_def)

lemma req_get_simps:
  "req_get req ''user-agent'' = req_headers req ''user-agent''"
  "req_get req ''accept'' = req_headers req ''accept''"
  "req_get req ''accept-language'' = req_headers req ''accept-language''"
  "req_get req ''accept-encoding'' = req_headers req ''accept-encoding''"
  "req_get req ''connection'' = req_headers req ''connection''"
  "req_get req ''x-requested-with'' = req_headers req ''x-requested-with''"
  by (simp_all add: req_get_def lower_names)

section \<open>Properties of the heuristic scorer and the pipeline\<close>

lemma pattern_loop_eq:
  "pattern_loop ps ua s = (if list_ex (\<lambda>p. regex_test_i p ua) ps then s + 30 else s)"
  by (induction ps) auto

lemma add_if_ge: "0 \<le> n \<Longrightarrow> s \<le> add_if c n s"
  by (simp add: add_if_def)

lemma add_if_chain:
  "s \<le> add_if c9 5 (add_if c8 5 (add_if c7 5 (add_if c6 15 (add_if c5 20
        (add_if c4 25 (add_if c3 10 s))))))"
proof -
  let ?t3 = "add_if c3 10 s"
  let ?t4 = "add_if c4 25 ?t3"
  let ?t5 = "add_if c5 20 ?t4"
  let ?t6 = "add_if c6 15 ?t5"
  let ?t7 = "add_if c7 5 ?t6"
  let ?t8 = "add_if c8 5 ?t7"
  have "s \<le> ?t3" "?t3 \<le> ?t4" "?t4 \<le> ?t5" "?t5 \<le> ?t6" "?t6 \<le> ?t7" "?t7 \<le> ?t8"
    "?t8 \<le> add_if c9 5 ?t8"
    by (simp_all add: add_if_ge)
  then show ?thesis by linarith
qed

lemma score_script: "calculateBotScore script_request = 70" by code_simp
lemma score_curl: "calculateBotScore curl_request = 100" by code_simp
lemma score_browser: "calculateBotScore browser_request = 0" by code_simp
lemma score_googlebot: "calculateBotScore googlebot_request = 45" by code_simp

text \<open>
  Claim C1. A request whose address is not blacklisted reaches the scoring stage, and the
  outcome follows its computed score: at 80 or more the pipeline answers 429 with code
  \<open>CAPTCHA_REQUIRED\<close> and the score in the body; from 60 to 79 the request goes on,
  marked suspicious; below 60 it goes on with no mark (only the score is attached). The
  first two outcomes are logged as \<open>bot_detected\<close>/high and
  \<open>suspicious_behavior\<close>/medium, the third is not logged.
\<close>

theorem C1_threshold_bands:
  assumes "\<not> isBlacklisted d now (req_ip req)"
  shows "snd (botDetectionMiddleware uap now d req) =
           (if calculateBotScore req \<ge> 80
            then Respond \<lparr> status = 429,
                           body = [(''error'', Some (JStr
                                     ''Suspicious activity detected. Please complete CAPTCHA verification.'')),
                                   (''code'', Some (JStr ''CAPTCHA_REQUIRED'')),
                                   (''botScore'', Some (JNum (calculateBotScore req)))] \<rparr>
            else if calculateBotScore req \<ge> 60
            then Next (req\<lparr> suspiciousActivity := Some True,
                           req_botScore := Some (calculateBotScore req) \<rparr>)
            else Next (req\<lparr> req_botScore := Some (calculateBotScore req) \<rparr>))
       \<and> map (\<lambda>e. (event_type e, severity e))
             (security_events (fst (botDetectionMiddleware uap now d req))) =
           map (\<lambda>e. (event_type e, severity e)) (security_events d) @
           (if calculateBotScore req \<ge> 80 then [(''bot_detected'', ''high'')]
            else if calculateBotScore req \<ge> 60 then [(''suspicious_behavior'', ''medium'')]
            else [])"
proof -
  have run: "updateBotScore uap d req =
               (fst (updateBotScore uap d req), calculateBotScore req)"
    by (simp add: updateBotScore_def Let_def)
  have kept: "security_events (fst (updateBotScore uap d req)) = security_events d"
    by (simp add: updateBotScore_def Let_def)
  show ?thesis
    using assms
    by (subst (1 2) botDetectionMiddleware_def, subst (1 2) run)
       (simp add: Let_def logSecurityEvent_def kept)
qed

lemma empty_not_blacklisted: "\<not> isBlacklisted empty_db now ip"
  by (simp add: isBlacklisted_def empty_db_def)

theorem C1_threshold_bands_witness:
  "snd (botDetectionMiddleware no_parser ''2026-11-02 08:00:00'' empty_db curl_request) =
     Respond \<lparr> status = 429,
               body = [(''error'', Some (JStr
                         ''Suspicious activity detected. Please complete CAPTCHA verification.'')),
                       (''code'', Some (JStr ''CAPTCHA_REQUIRED'')),
                       (''botScore'', Some (JNum 100))] \<rparr>
   \<and> snd (botDetectionMiddleware no_parser ''2026-11-02 08:00:00'' empty_db script_request) =
     Next (script_request\<lparr> suspiciousActivity := Some True, req_botScore := Some 70 \<rparr>)
   \<and> snd (botDetectionMiddleware no_parser ''2026-11-02 08:00:00'' empty_db browser_request) =
     Next (browser_request\<lparr> req_botScore := Some 0 \<rparr>)"
  using C1_threshold_bands [where d = empty_db and now = "''2026-11-02 08:00:00''" and req = curl_request
          and uap = no_parser, OF empty_not_blacklisted]
        C1_threshold_bands [where d = empty_db and now = "''2026-11-02 08:00:00''" and req = script_request
          and uap = no_parser, OF empty_not_blacklisted]
        C1_threshold_bands [where d = empty_db and now = "''2026-11-02 08:00:00''" and req = browser_request
          and uap = no_parser, OF empty_not_blacklisted]
  by (simp add: score_curl score_script score_browser)

text \<open>
  Claim C5, amended. A user-agent with a known automation-tool signature and no
  Accept-Language header scores at least 45: the 30 of the signature and the 15 of the
  missing header are the only points these two facts force.
\<close>

theorem C5_signature_without_language_scores_45:
  assumes sig: "automation_signature (orEmpty (req_get req ''user-agent''))"
    and nolang: "req_get req ''accept-language'' = None"
  shows "45 \<le> calculateBotScore req"
proof -
  let ?ua = "orEmpty (req_get req ''user-agent'')"
  let ?acc = "orEmpty (req_get req ''accept'')"
  have s0: "pattern_loop botPatterns ?ua 0 = 30"
    using sig by (simp add: pattern_loop_eq automation_signature_def)
  have "(30::int) \<le> add_if (?acc = [] \<or> ?acc = ''*/*'') 10 30"
    by (rule add_if_ge) simp
  then have s2: "45 \<le> add_if True 15 (add_if (?acc = [] \<or> ?acc = ''*/*'') 10 30)"
    by (simp add: add_if_def)
  have al: "(orEmpty (req_get req ''accept-language'') = []) = True"
    using nolang by (simp add: orEmpty_def)
  show ?thesis
    unfolding calculateBotScore_def Let_def s0 al
    by (rule min.boundedI [OF order_trans [OF s2 add_if_chain]]) simp
qed

lemma curl_sig: "automation_signature (orEmpty (req_get curl_request ''user-agent''))"
  by code_simp
lemma curl_nolang: "req_get curl_request ''accept-language'' = None"
  by code_simp

theorem C5_signature_without_language_scores_45_witness:
  "automation_signature (orEmpty (req_get curl_request ''user-agent''))
   \<and> req_get curl_request ''accept-language'' = None
   \<and> 45 \<le> calculateBotScore curl_request"
  using C5_signature_without_language_scores_45 [OF curl_sig curl_nolang] curl_sig curl_nolang
  by simp

text \<open>
  Claim C5 as stated (at least 55) fails: a crawler that names itself inside a
  browser-style user-agent and sends Accept and Accept-Encoding scores exactly 45.
\<close>

theorem C5_score_below_55_counterexample:
  "automation_signature (orEmpty (req_get googlebot_request ''user-agent''))
   \<and> req_get googlebot_request ''accept-language'' = None
   \<and> calculateBotScore googlebot_request = 45
   \<and> \<not> 55 \<le> calculateBotScore googlebot_request"
proof -
  have "automation_signature (orEmpty (req_get googlebot_request ''user-agent''))"
    by code_simp
  moreover have "req_get googlebot_request ''accept-language'' = None"
    by code_simp
  ultimately show ?thesis by (simp add: score_googlebot)
qed

section \<open>Properties of the reputation store\<close>

lemma find_replaced:
  "P r \<Longrightarrow> find P (filter (\<lambda>x. \<not> P x) xs @ [r]) = Some r"
  by (induction xs) auto

lemma find_other_key:
  "(ip', ua') \<noteq> (ip, ua) \<Longrightarrow> \<not> same_key ip' ua' r \<Longrightarrow>
     find (same_key ip' ua') (filter (\<lambda>x. \<not> same_key ip ua x) xs @ [r])
       = find (same_key ip' ua') xs"
  by (induction xs) (auto simp: same_key_def)

text \<open>
  Claim C7. For a key (address, user-agent), \<open>updateBotScore\<close> returns the score of the
  request and leaves one row for the key: with request count 1 when none was stored;
  otherwise with the request count one higher, the suspicious-pattern count one higher
  exactly when the new score is over 50, and the stored score replaced by the new one.
  Rows of other keys are as they were.
\<close>

theorem C7_reputation_update:
  fixes uap d req
  defines "ip \<equiv> req_ip req"
    and "ua \<equiv> orEmpty (req_get req ''user-agent'')"
    and "score \<equiv> calculateBotScore req"
    and "d' \<equiv> fst (updateBotScore uap d req)"
  shows "snd (updateBotScore uap d req) = score
    \<and> (select_bot_score d ip ua = None \<longrightarrow>
         (\<exists>r. select_bot_score d' ip ua = Some r \<and> request_count r = 1 \<and> bot_score r = score))
    \<and> (\<forall>old. select_bot_score d ip ua = Some old \<longrightarrow>
         (\<exists>r. select_bot_score d' ip ua = Some r
            \<and> request_count r = request_count old + 1
            \<and> suspicious_patterns r = suspicious_patterns old + (if score > 50 then 1 else 0)
            \<and> bot_score r = score))
    \<and> (\<forall>ip' ua'. (ip', ua') \<noteq> (ip, ua) \<longrightarrow>
         select_bot_score d' ip' ua' = select_bot_score d ip' ua')"
proof -
  let ?row = "\<lparr> bs_ip_address = ip, bs_user_agent = ua,
                device_fingerprint = generateDeviceFingerprint req (parseDeviceInfo uap req),
                bot_score = score,
                request_count = coalesce0 request_count (select_bot_score d ip ua) + 1,
                suspicious_patterns = coalesce0 suspicious_patterns (select_bot_score d ip ua)
                  + (if score > 50 then 1 else 0) \<rparr>"
  have rows: "bot_scores d' = filter (\<lambda>r. \<not> same_key ip ua r) (bot_scores d) @ [?row]"
    by (simp add: d'_def updateBotScore_def Let_def ip_def ua_def score_def)
  have key: "same_key ip ua ?row"
    by (simp add: same_key_def)
  have sel: "select_bot_score d' ip ua = Some ?row"
    using find_replaced [where P = "same_key ip ua" and xs = "bot_scores d", OF key]
    by (simp only: select_bot_score_def rows)
  have ret: "snd (updateBotScore uap d req) = score"
    by (simp add: updateBotScore_def Let_def score_def)
  have first: "\<exists>r. select_bot_score d' ip ua = Some r \<and> request_count r = 1 \<and> bot_score r = score"
    if "select_bot_score d ip ua = None"
    using that sel by (simp add: coalesce0_def)
  have later: "\<exists>r. select_bot_score d' ip ua = Some r
          \<and> request_count r = request_count old + 1
          \<and> suspicious_patterns r = suspicious_patterns old + (if score > 50 then 1 else 0)
          \<and> bot_score r = score"
    if "select_bot_score d ip ua = Some old" for old
    using that sel by (simp add: coalesce0_def)
  have frame: "select_bot_score d' ip' ua' = select_bot_score d ip' ua'"
    if ne: "(ip', ua') \<noteq> (ip, ua)" for ip' ua'
  proof -
    have "\<not> same_key ip' ua' ?row"
      using ne by (auto simp: same_key_def)
    then show ?thesis
      using find_other_key [OF ne, where xs = "bot_scores d"]
      by (simp only: select_bot_score_def rows)
  qed
  from ret first later frame show ?thesis by blast
qed


theorem C7_reputation_update_witness:
  "select_bot_score empty_db ''198.51.100.4'' ''python-requests/2.31.0'' = None
   \<and> map_option request_count (select_bot_score once_seen ''198.51.100.4'' ''python-requests/2.31.0'') = Some 1
   \<and> map_option bot_score (select_bot_score once_seen ''198.51.100.4'' ''python-requests/2.31.0'') = Some 70
   \<and> map_option request_count (select_bot_score
        (fst (updateBotScore no_parser once_seen (script_request\<lparr> req_method := ''GET'' \<rparr>)))
        ''198.51.100.4'' ''python-requests/2.31.0'') = Some 2
   \<and> map_option bot_score (select_bot_score
        (fst (updateBotScore no_parser once_seen (script_request\<lparr> req_method := ''GET'' \<rparr>)))
        ''198.51.100.4'' ''python-requests/2.31.0'') = Some 65"
proof -
  have ip: "req_ip script_request = ''198.51.100.4''"
    and ua: "orEmpty (req_get script_request ''user-agent'') = ''python-requests/2.31.0''"
    by (simp_all add: script_request_def plain_request_def req_get_simps orEmpty_def)
  have ip2: "req_ip (script_request\<lparr> req_method := ''GET'' \<rparr>) = ''198.51.100.4''"
    and ua2: "orEmpty (req_get (script_request\<lparr> req_method := ''GET'' \<rparr>) ''user-agent'')
                = ''python-requests/2.31.0''"
    by (simp_all add: script_request_def plain_request_def req_get_simps orEmpty_def)
  have s1: "calculateBotScore script_request = 70" by code_simp
  have s2: "calculateBotScore (script_request\<lparr> req_method := ''GET'' \<rparr>) = 65" by code_simp
  have none: "select_bot_score empty_db ''198.51.100.4'' ''python-requests/2.31.0'' = None"
    by (simp add: select_bot_score_def empty_db_def)
  from C7_reputation_update [of no_parser empty_db script_request] none
  obtain r where r: "select_bot_score once_seen ''198.51.100.4'' ''python-requests/2.31.0'' = Some r"
      "request_count r = 1" "bot_score r = 70"
    unfolding ip ua s1 once_seen_def by blast
  from C7_reputation_update [of no_parser once_seen "script_request\<lparr> req_method := ''GET'' \<rparr>"] r(1)
  obtain r' where r': "select_bot_score
        (fst (updateBotScore no_parser once_seen (script_request\<lparr> req_method := ''GET'' \<rparr>)))
        ''198.51.100.4'' ''python-requests/2.31.0'' = Some r'"
      "request_count r' = request_count r + 1" "bot_score r' = 65"
    unfolding ip2 ua2 s2 by blast
  from none r r' show ?thesis by simp
qed

section \<open>Properties of the challenge manager\<close>

lemma find_Some_set: "find P xs = Some x \<Longrightarrow> x \<in> set xs \<and> P x"
  by (induction xs) (auto split: if_splits)

lemma unique_challenge:
  "distinct (map challenge_id rows) \<Longrightarrow> x \<in> set rows \<Longrightarrow> y \<in> set rows \<Longrightarrow>
     challenge_id x = challenge_id y \<Longrightarrow> x = y"
  by (meson distinct_map inj_onD)

text \<open>A call that nothing overlaps, written out in one piece.\<close>

lemma verifyCaptcha_alone:
  "verifyCaptcha d now challengeId solution =
     (case find (live_challenge now challengeId) (captcha_challenges d) of
        None \<Rightarrow> (d, False)
      | Some challenge \<Rightarrow>
          (let isCorrect = (cc_solution challenge = toString solution) in
           if isCorrect
           then (d\<lparr> captcha_challenges :=
                      map (\<lambda>c. if cc_id c = cc_id challenge then c\<lparr> solved := True \<rparr> else c)
                          (captcha_challenges d) \<rparr>, True)
           else (d, False)))"
  by (simp add: verifyCaptcha_def verify_select_def mark_solved_def Let_def
      split: option.splits)

lemma verifyCaptcha_bot_scores: "bot_scores (fst (verifyCaptcha d now cid sol)) = bot_scores d"
  by (simp add: verifyCaptcha_alone Let_def split: option.splits)

lemma verifyCaptcha_true_iff:
  assumes uniq: "distinct (map challenge_id (captcha_challenges d))"
  shows "snd (verifyCaptcha d now cid sol) \<longleftrightarrow>
           (\<exists>c \<in> set (captcha_challenges d). live_challenge now cid c \<and> cc_solution c = toString sol)"
proof (cases "find (live_challenge now cid) (captcha_challenges d)")
  case None
  then have "\<not> (\<exists>c \<in> set (captcha_challenges d). live_challenge now cid c)"
    by (simp add: find_None_iff)
  with None show ?thesis
    by (auto simp: verifyCaptcha_alone)
next
  case (Some c)
  then have c: "c \<in> set (captcha_challenges d)" "live_challenge now cid c"
    using find_Some_set by fastforce+
  have only: "c' = c" if "c' \<in> set (captcha_challenges d)" "live_challenge now cid c'" for c'
    using unique_challenge [OF uniq that(1) c(1)] that(2) c(2)
    by (simp add: live_challenge_def)
  have "snd (verifyCaptcha d now cid sol) = (cc_solution c = toString sol)"
    using Some by (simp add: verifyCaptcha_alone Let_def)
  also have "\<dots> = (\<exists>c' \<in> set (captcha_challenges d).
                  live_challenge now cid c' \<and> cc_solution c' = toString sol)"
    using c only by blast
  finally show ?thesis .
qed

lemma verifyCaptcha_failure_keeps_state:
  "\<not> snd (verifyCaptcha d now cid sol) \<Longrightarrow> fst (verifyCaptcha d now cid sol) = d"
  by (auto simp: verifyCaptcha_alone Let_def split: option.splits if_splits)

lemma verifyCaptcha_consumes:
  assumes uniq: "distinct (map challenge_id (captcha_challenges d))"
    and ok: "snd (verifyCaptcha d now cid sol)"
  shows "\<not> snd (verifyCaptcha (fst (verifyCaptcha d now cid sol)) now' cid sol')"
proof -
  from ok obtain c where found: "find (live_challenge now cid) (captcha_challenges d) = Some c"
    by (auto simp: verifyCaptcha_alone split: option.splits)
  then have c: "c \<in> set (captcha_challenges d)" "challenge_id c = cid"
    using find_Some_set [OF found] by (simp_all add: live_challenge_def)
  let ?mark = "\<lambda>x. if cc_id x = cc_id c then x\<lparr> solved := True \<rparr> else x"
  have after: "captcha_challenges (fst (verifyCaptcha d now cid sol)) = map ?mark (captcha_challenges d)"
    using ok found by (auto simp: verifyCaptcha_alone Let_def split: if_splits)
  have "\<not> live_challenge now' cid y" if y: "y \<in> set (map ?mark (captcha_challenges d))" for y
  proof -
    from y obtain x where x: "x \<in> set (captcha_challenges d)" "y = ?mark x"
      by auto
    show ?thesis
    proof (cases "challenge_id x = cid")
      case True
      then have "x = c"
        using unique_challenge [OF uniq x(1) c(1)] c(2) by simp
      then show ?thesis
        using x(2) by (simp add: live_challenge_def)
    next
      case False
      then show ?thesis
        using x(2) by (simp add: live_challenge_def)
    qed
  qed
  then have "find (live_challenge now' cid) (map ?mark (captcha_challenges d)) = None"
    unfolding find_None_iff by blast
  then have "find (live_challenge now' cid) (captcha_challenges (fst (verifyCaptcha d now cid sol))) = None"
    by (simp only: after)
  then show ?thesis
    by (simp add: verifyCaptcha_alone)
qed

text \<open>
  The uniqueness of challenge ids holds in the empty table and is kept by issuing and by
  verifying.
\<close>

lemma createCaptchaChallenge_keeps_unique:
  "distinct (map challenge_id (captcha_challenges d)) \<Longrightarrow>
     distinct (map challenge_id
       (captcha_challenges (fst (createCaptchaChallenge d now uuid r1 r2 r3 ip))))"
  by (auto simp: createCaptchaChallenge_def split_def Let_def list_ex_iff)

lemma verifyCaptcha_keeps_unique:
  "distinct (map challenge_id (captcha_challenges d)) \<Longrightarrow>
     distinct (map challenge_id (captcha_challenges (fst (verifyCaptcha d now cid sol))))"
proof -
  have same_ids: "challenge_id \<circ> (\<lambda>c. if cc_id c = k then c\<lparr> solved := True \<rparr> else c)
                    = challenge_id" for k
    by (rule ext) simp
  show "distinct (map challenge_id (captcha_challenges d)) \<Longrightarrow> ?thesis"
    by (simp add: verifyCaptcha_alone Let_def same_ids split: option.splits)
qed

text \<open>
  Calls that do not overlap. With challenge ids unique in the table (the UNIQUE
  constraint), such a call returns true exactly when a live challenge (that id, not
  expired, not solved) is stored and its solution equals the submitted value printed as a
  string. When it returns false the state is unchanged. After it has returned true, no
  later call with the same id returns true, whatever the answer; and once every challenge
  of that id has expired it returns false, whatever the answer.
\<close>

lemma verifyCaptcha_not_overlapped:
  assumes uniq: "distinct (map challenge_id (captcha_challenges d))"
  shows "(snd (verifyCaptcha d now cid sol) \<longleftrightarrow>
            (\<exists>c \<in> set (captcha_challenges d).
               live_challenge now cid c \<and> cc_solution c = toString sol))
       \<and> (\<not> snd (verifyCaptcha d now cid sol) \<longrightarrow> fst (verifyCaptcha d now cid sol) = d)
       \<and> (snd (verifyCaptcha d now cid sol) \<longrightarrow>
            (\<forall>now' sol'. \<not> snd (verifyCaptcha (fst (verifyCaptcha d now cid sol)) now' cid sol')))
       \<and> ((\<forall>c \<in> set (captcha_challenges d). challenge_id c = cid \<longrightarrow> expires_at c \<le> now) \<longrightarrow>
            \<not> snd (verifyCaptcha d now cid sol))"
proof -
  have expired: "\<not> snd (verifyCaptcha d now cid sol)"
    if "\<forall>c \<in> set (captcha_challenges d). challenge_id c = cid \<longrightarrow> expires_at c \<le> now"
    using that verifyCaptcha_true_iff [OF uniq, of now cid sol]
    by (auto simp: live_challenge_def)
  show ?thesis
    using verifyCaptcha_true_iff [OF uniq] verifyCaptcha_failure_keeps_state
      verifyCaptcha_consumes [OF uniq] expired
    by blast
qed

lemma show_nat_10: "show_nat 10 = ''10''"
  by (simp add: show_nat_eval)

lemma show_nat_11: "show_nat 11 = ''11''"
  by (simp add: show_nat_eval)

lemma issued_db_rows:
  "captcha_challenges issued_db =
     [\<lparr> cc_id = 1, challenge_id = ''6f1c'', cc_ip_address = ''10.0.0.1'', cc_solution = ''10'',
        solved = False, expires_at = 1300 \<rparr>]"
  by (simp add: issued_db_def createCaptchaChallenge_def generateSimpleCaptcha_def
      reputation_db_def empty_db_def Let_def show_int_def show_nat_10)

lemma verifyCaptcha_not_overlapped_example:
  "distinct (map challenge_id (captcha_challenges issued_db))
   \<and> snd (verifyCaptcha issued_db 1100 ''6f1c'' (JNum 10))
   \<and> \<not> snd (verifyCaptcha (fst (verifyCaptcha issued_db 1100 ''6f1c'' (JNum 10))) 1101 ''6f1c'' (JNum 10))
   \<and> \<not> snd (verifyCaptcha issued_db 1300 ''6f1c'' (JNum 10))
   \<and> fst (verifyCaptcha issued_db 1100 ''6f1c'' (JNum 11)) = issued_db"
proof -
  have uniq: "distinct (map challenge_id (captcha_challenges issued_db))"
    by (simp add: issued_db_rows)
  note inst = verifyCaptcha_not_overlapped [OF uniq]
  have ok: "snd (verifyCaptcha issued_db 1100 ''6f1c'' (JNum 10))"
    using inst [of 1100 "''6f1c''" "JNum 10"]
    by (simp add: issued_db_rows live_challenge_def show_int_def show_nat_10)
  have again: "\<not> snd (verifyCaptcha (fst (verifyCaptcha issued_db 1100 ''6f1c'' (JNum 10))) 1101 ''6f1c'' (JNum 10))"
    using inst [of 1100 "''6f1c''" "JNum 10"] ok by blast
  have late: "\<not> snd (verifyCaptcha issued_db 1300 ''6f1c'' (JNum 10))"
    using inst [of 1300 "''6f1c''" "JNum 10"]
    by (simp add: issued_db_rows live_challenge_def)
  have "\<not> snd (verifyCaptcha issued_db 1100 ''6f1c'' (JNum 11))"
    using inst [of 1100 "''6f1c''" "JNum 11"]
    by (simp add: issued_db_rows live_challenge_def show_int_def show_nat_11)
  then have wrong: "fst (verifyCaptcha issued_db 1100 ''6f1c'' (JNum 11)) = issued_db"
    using inst [of 1100 "''6f1c''" "JNum 11"] by blast
  from uniq ok again late wrong show ?thesis by simp
qed

text \<open>
  A schedule that runs the two statements of one call back to back is that call alone.
\<close>

lemma run_calls_alone:
  "run_calls now [0, 0] (d, [Issued cid sol]) =
     (fst (verifyCaptcha d now cid sol), [Finished (snd (verifyCaptcha d now cid sol))])"
  by (simp add: verifyCaptcha_def split_def Let_def)

lemma mark_solved_None: "mark_solved d None = d"
  by (simp add: mark_solved_def)

lemma select_issued_10: "verify_select issued_db 1100 ''6f1c'' (JNum 10) = (True, Some 1)"
  by (simp add: verify_select_def issued_db_rows live_challenge_def show_int_def show_nat_10)

lemma select_solved_10:
  "verify_select (mark_solved issued_db (Some (Suc 0))) 1100 ''6f1c'' (JNum 10) = (False, None)"
  by (simp add: verify_select_def mark_solved_def issued_db_rows live_challenge_def)

text \<open>
  Claim C3 at two calls that overlap. Both requests carry the id and the right answer
  of the live challenge of \<open>issued_db\<close>. When the second call's SELECT runs before
  the first call's queued UPDATE (schedule 0, 1, 0, 1), both promises resolve to true:
  the challenge is verified twice. Run one after the other (schedule 0, 0, 1, 1), the
  second call resolves to false.
\<close>

theorem C3_overlapping_calls_both_true:
  "map resolved_to (snd (run_calls 1100 [0, 1, 0, 1] (issued_db, two_calls)))
     = [Some True, Some True]
   \<and> map solved (captcha_challenges (fst (run_calls 1100 [0, 1, 0, 1] (issued_db, two_calls))))
     = [True]
   \<and> map resolved_to (snd (run_calls 1100 [0, 0, 1, 1] (issued_db, two_calls)))
     = [Some True, Some False]"
proof -
  have overlapped: "run_calls 1100 [0, 1, 0, 1] (issued_db, two_calls) =
      (mark_solved (mark_solved issued_db (Some 1)) (Some 1), [Finished True, Finished True])"
    by (simp add: two_calls_def select_issued_10)
  have in_turn: "run_calls 1100 [0, 0, 1, 1] (issued_db, two_calls) =
      (mark_solved issued_db (Some 1), [Finished True, Finished False])"
    by (simp add: two_calls_def select_issued_10 select_solved_10 mark_solved_None)
  show ?thesis
    unfolding overlapped in_turn
    by (simp add: mark_solved_def issued_db_rows)
qed

section \<open>Properties of the verification route\<close>

lemma amnesty_max:
  "amnesty ip r =
     (if bs_ip_address r = ip then r\<lparr> bot_score := max (bot_score r - 30) 0 \<rparr> else r)"
  by (simp add: amnesty_def max_def)

lemma captcha_verify_status:
  "status (snd (captcha_verify d now req)) = 200 \<longleftrightarrow>
     truthy (map_option JStr (body_challengeId req)) \<and> truthy (body_solution req)
     \<and> snd (verifyCaptcha d now (the (body_challengeId req)) (the (body_solution req)))"
  by (auto simp: captcha_verify_def split_def Let_def)

lemma captcha_verify_rows:
  "bot_scores (fst (captcha_verify d now req)) =
     (if status (snd (captcha_verify d now req)) = 200
      then map (amnesty (req_ip req)) (bot_scores d) else bot_scores d)"
  by (simp add: captcha_verify_def split_def Let_def verifyCaptcha_bot_scores)

text \<open>
  Claim C6. When the verification of a request from address \<open>A\<close> succeeds (the route
  answers 200), every stored reputation row of address \<open>A\<close> has its score \<open>s\<close> replaced by
  \<open>max (s - 30) 0\<close> and the rows of other addresses are as they were; when it does not
  succeed, the reputation table is unchanged. The route answers 200 exactly when both
  inputs are present and \<open>verifyCaptcha\<close> returns true.
\<close>

theorem C6_score_amnesty:
  "(status (snd (captcha_verify d now req)) = 200 \<longrightarrow>
      bot_scores (fst (captcha_verify d now req)) =
        map (\<lambda>r. if bs_ip_address r = req_ip req
                 then r\<lparr> bot_score := max (bot_score r - 30) 0 \<rparr> else r) (bot_scores d))
   \<and> (status (snd (captcha_verify d now req)) \<noteq> 200 \<longrightarrow>
      bot_scores (fst (captcha_verify d now req)) = bot_scores d)
   \<and> (status (snd (captcha_verify d now req)) = 200 \<longleftrightarrow>
      truthy (map_option JStr (body_challengeId req)) \<and> truthy (body_solution req)
      \<and> snd (verifyCaptcha d now (the (body_challengeId req)) (the (body_solution req))))"
proof -
  have "map (amnesty (req_ip req)) (bot_scores d) =
          map (\<lambda>r. if bs_ip_address r = req_ip req
                   then r\<lparr> bot_score := max (bot_score r - 30) 0 \<rparr> else r) (bot_scores d)"
    by (rule map_cong) (simp_all add: amnesty_max)
  then show ?thesis
    using captcha_verify_rows [of d now req] captcha_verify_status [of d now req]
    by simp
qed

lemma issued_db_scores: "bot_scores issued_db = bot_scores reputation_db"
  by (simp add: issued_db_def createCaptchaChallenge_def split_def Let_def)

lemma answer_request_fields:
  "req_ip (answer_request ip sol) = ip"
  "body_challengeId (answer_request ip sol) = Some ''6f1c''"
  "body_solution (answer_request ip sol) = Some sol"
  by (simp_all add: answer_request_def plain_request_def)

lemma verify_issued_10: "snd (verifyCaptcha issued_db 1100 ''6f1c'' (JNum 10))"
  by (simp add: verifyCaptcha_alone issued_db_rows live_challenge_def show_int_def show_nat_10)

lemma verify_issued_11: "\<not> snd (verifyCaptcha issued_db 1100 ''6f1c'' (JNum 11))"
  by (simp add: verifyCaptcha_alone issued_db_rows live_challenge_def show_int_def show_nat_10
      show_nat_11)

lemma answered_status:
  "status (snd (captcha_verify issued_db 1100 (answer_request ip (JNum 10)))) = 200"
  by (simp add: captcha_verify_status answer_request_fields verify_issued_10)

lemma wrong_status:
  "status (snd (captcha_verify issued_db 1100 (answer_request ip (JNum 11)))) \<noteq> 200"
  by (simp add: captcha_verify_status answer_request_fields verify_issued_11)

theorem C6_score_amnesty_witness:
  "status (snd (captcha_verify issued_db 1100 (answer_request ''10.0.0.1'' (JNum 10)))) = 200
   \<and> map bot_score (bot_scores issued_db) = [90, 20, 85]
   \<and> map bot_score (bot_scores (fst (captcha_verify issued_db 1100
        (answer_request ''10.0.0.1'' (JNum 10))))) = [60, 0, 85]
   \<and> status (snd (captcha_verify issued_db 1100 (answer_request ''10.0.0.1'' (JNum 11)))) = 400
   \<and> bot_scores (fst (captcha_verify issued_db 1100 (answer_request ''10.0.0.1'' (JNum 11))))
        = bot_scores issued_db"
proof -
  have before: "map bot_score (bot_scores issued_db) = [90, 20, 85]"
    by (simp add: issued_db_scores reputation_db_def empty_db_def)
  have after: "map bot_score (bot_scores (fst (captcha_verify issued_db 1100
        (answer_request ''10.0.0.1'' (JNum 10))))) = [60, 0, 85]"
    using C6_score_amnesty [of issued_db 1100 "answer_request ''10.0.0.1'' (JNum 10)"]
      answered_status [of "''10.0.0.1''"]
    by (simp add: issued_db_scores reputation_db_def empty_db_def answer_request_fields)
  have wrong: "status (snd (captcha_verify issued_db 1100 (answer_request ''10.0.0.1'' (JNum 11)))) = 400"
    by (simp add: captcha_verify_def split_def Let_def answer_request_fields verify_issued_11)
  have kept: "bot_scores (fst (captcha_verify issued_db 1100 (answer_request ''10.0.0.1'' (JNum 11))))
        = bot_scores issued_db"
    using C6_score_amnesty [of issued_db 1100 "answer_request ''10.0.0.1'' (JNum 11)"]
      wrong_status [of "''10.0.0.1''"]
    by simp
  from answered_status before after wrong kept show ?thesis by simp
qed




section \<open>Properties of the fingerprints\<close>

lemma orEmpty_simps: "orEmpty None = []" "orEmpty (Some s) = s"
  by (simp_all add: orEmpty_def)

lemma browser_request_fields:
  "req_ip browser_request = ''198.51.100.4''"
  "orEmpty (req_get browser_request ''user-agent'')
     = ''Mozilla/5.0 (X11; Linux x86_64; rv:109.0) Gecko/20100101 Firefox/115.0''"
  "orEmpty (req_get browser_request ''accept-language'') = ''en-US,en;q=0.5''"
  by (simp_all add: browser_request_def plain_request_def req_get_simps orEmpty_def)

lemma voter_browser: "voterFingerprint browser_request = ''-523748687''"
  by (simp add: voterFingerprint_def browser_request_fields simpleHash_def show_int_def
      show_nat_eval)

lemma device_browser:
  "generateDeviceFingerprint browser_request (parseDeviceInfo parser_firefox browser_request)
     = ''1784276931''"
  by (simp add: generateDeviceFingerprint_def parseDeviceInfo_def parser_firefox_def Let_def
      browser_request_fields orEmpty_simps simpleHash_def show_int_def show_nat_eval)

text \<open>
  Claim C9 as stated fails: for a Firefox request the vote route's fingerprint and the
  device fingerprint are different strings.
\<close>

theorem C9_fingerprints_differ_counterexample:
  "voterFingerprint browser_request = ''-523748687''
   \<and> generateDeviceFingerprint browser_request (parseDeviceInfo parser_firefox browser_request)
       = ''1784276931''
   \<and> voterFingerprint browser_request
       \<noteq> generateDeviceFingerprint browser_request (parseDeviceInfo parser_firefox browser_request)"
  by (simp add: voter_browser device_browser)

text \<open>
  Claim C9, amended. The vote route hashes the address and the user-agent only,
  \<open>simpleHash(ip + '|' + userAgent)\<close>; the device fingerprint hashes the user-agent, the
  address, the parsed browser and OS names and Accept-Language. The two share the hash
  function, not its input: requests that agree on address and user-agent have the same
  voter fingerprint, whatever else they carry.
\<close>

theorem C9_voter_fingerprint_inputs:
  "voterFingerprint req = simpleHash (req_ip req @ ''|'' @ orEmpty (req_get req ''user-agent''))
   \<and> generateDeviceFingerprint req (parseDeviceInfo uap req) =
       simpleHash (orEmpty (req_get req ''user-agent'') @ ''|'' @ req_ip req @ ''|'' @
         orEmpty (name (result_browser (uap (orEmpty (req_get req ''user-agent''))))) @ ''|'' @
         orEmpty (name (result_os (uap (orEmpty (req_get req ''user-agent''))))) @ ''|'' @
         orEmpty (req_get req ''accept-language''))
   \<and> (\<forall>req'. req_ip req' = req_ip req
          \<and> req_get req' ''user-agent'' = req_get req ''user-agent''
        \<longrightarrow> voterFingerprint req' = voterFingerprint req)"
  by (simp add: voterFingerprint_def generateDeviceFingerprint_def parseDeviceInfo_def Let_def)

theorem C9_voter_fingerprint_inputs_witness:
  "req_ip german_request = req_ip browser_request
   \<and> req_get german_request ''user-agent'' = req_get browser_request ''user-agent''
   \<and> req_get german_request ''accept-language'' \<noteq> req_get browser_request ''accept-language''
   \<and> voterFingerprint german_request = voterFingerprint browser_request"
proof -
  have same: "req_ip german_request = req_ip browser_request"
    "req_get german_request ''user-agent'' = req_get browser_request ''user-agent''"
    by (simp_all add: german_request_def req_get_simps)
  have other: "req_get german_request ''accept-language'' \<noteq> req_get browser_request ''accept-language''"
    by (simp add: german_request_def browser_request_def plain_request_def req_get_simps)
  from C9_voter_fingerprint_inputs [of browser_request] same
  have "voterFingerprint german_request = voterFingerprint browser_request"
    by blast
  with same other show ?thesis by simp
qed

section \<open>The solution zero\<close>

lemma show_nat_nonempty: "show_nat n \<noteq> []"
  by (subst show_nat.simps) simp

lemma digit_char_zero: "d < 10 \<Longrightarrow> digit_char d = CHR ''0'' \<longleftrightarrow> d = 0"
proof
  assume d: "d < 10" and eq: "digit_char d = CHR ''0''"
  then have "(of_char (char_of (48 + d)) :: nat) = of_char (CHR ''0'')"
    by (simp add: digit_char_def)
  then show "d = 0"
    using d by simp
next
  assume "d = 0"
  then show "digit_char d = CHR ''0''"
    by (simp add: digit_chars)
qed

lemma show_nat_zero: "show_nat n = ''0'' \<longleftrightarrow> n = 0"
proof (cases "n < 10")
  case True
  then show ?thesis
    by (subst show_nat.simps) (simp add: digit_char_zero)
next
  case False
  have "length (show_nat n) = length (show_nat (n div 10)) + 1"
    using False by (subst show_nat.simps) simp
  moreover have "0 < length (show_nat (n div 10))"
    using show_nat_nonempty by blast
  ultimately have "length (show_nat n) \<noteq> 1"
    by simp
  then have "show_nat n \<noteq> ''0''"
    by auto
  with False show ?thesis
    by simp
qed

lemma show_int_zero: "show_int n = ''0'' \<longleftrightarrow> n = 0"
  by (auto simp: show_int_def show_nat_zero)

lemma truthy_zero: "\<not> truthy (Some (JNum 0))" "truthy (Some (JStr ''0''))"
  by simp_all

lemma dec_text_not_zero: "dec_text s \<Longrightarrow> s \<noteq> ''0''"
  by (auto simp: dec_text_def)

lemma number_never_zero_text:
  "is_number v \<Longrightarrow> truthy (Some v) \<Longrightarrow> toString v \<noteq> ''0''"
  by (cases v) (simp_all add: is_number_def show_int_zero dec_text_not_zero)

lemma zero_db_rows:
  "captcha_challenges zero_db =
     [\<lparr> cc_id = 1, challenge_id = ''6f1c'', cc_ip_address = ''10.0.0.1'', cc_solution = ''0'',
        solved = False, expires_at = 1300 \<rparr>]"
  by (simp add: zero_db_def createCaptchaChallenge_def generateSimpleCaptcha_def
      reputation_db_def empty_db_def Let_def show_int_def show_nat_eval)

lemma zero_db_live:
  "find (live_challenge 1100 ''6f1c'') (captcha_challenges zero_db) =
      Some \<lparr> cc_id = 1, challenge_id = ''6f1c'', cc_ip_address = ''10.0.0.1'', cc_solution = ''0'',
        solved = False, expires_at = 1300 \<rparr>"
  by (simp add: zero_db_rows live_challenge_def)

lemma array_zero_text: "toString (JArr [Some (JNum 0)]) = ''0''"
  by (simp add: orEmpty_simps show_int_def show_nat_eval)

text \<open>
  Claim C10 as stated fails in its last clause: the challenge \<open>7 - 7\<close> is also solved by
  the one-element array \<open>[0]\<close>, which is truthy and prints as \<open>0\<close>, so the string
  \<open>0\<close> is not the only value that solves it.
\<close>

theorem C10_array_zero_solves_counterexample:
  "map cc_solution (captcha_challenges zero_db) = [''0'']
   \<and> body_solution zero_array_request = Some (JArr [Some (JNum 0)])
   \<and> JArr [Some (JNum 0)] \<noteq> JStr ''0''
   \<and> status (snd (captcha_verify zero_db 1100 zero_array_request)) = 200"
proof -
  have "snd (verifyCaptcha zero_db 1100 ''6f1c'' (JArr [Some (JNum 0)]))"
    by (simp only: verifyCaptcha_alone zero_db_live array_zero_text) simp
  then have "status (snd (captcha_verify zero_db 1100 zero_array_request)) = 200"
    by (simp add: captcha_verify_status zero_array_request_def answer_request_fields)
  then show ?thesis
    by (simp add: zero_db_rows zero_array_request_def answer_request_fields)
qed

text \<open>
  Claim C10, amended. Equal operands with the minus sign give the answer 0, stored as
  the solution \<open>0\<close>. A request whose solution is the number 0 is answered 400 by the
  missing-input check with the state untouched, whatever the challenge. Against a live
  challenge whose solution is \<open>0\<close> no number is accepted, zero being rejected as missing
  and every other number being wrong, and the state stays as it was. Such a challenge is
  solved exactly by the truthy values whose string form is \<open>0\<close>: the string \<open>0\<close>, and
  also arrays such as \<open>[0]\<close>.
\<close>

theorem C10_zero_solved_by_truthy_text_zero:
  "snd (generateSimpleCaptcha k k False) = 0
   \<and> (\<not> list_ex (\<lambda>c. challenge_id c = uuid) (captcha_challenges d) \<longrightarrow>
        cc_solution (last (captcha_challenges
          (fst (createCaptchaChallenge d t0 uuid k k False ip)))) = ''0'')
   \<and> (body_solution req = Some (JNum 0) \<longrightarrow>
        captcha_verify d now req =
          (d, \<lparr> status = 400,
                body = [(''error'', Some (JStr ''Challenge ID and solution are required''))] \<rparr>))
   \<and> (\<forall>cid c v. body_challengeId req = Some cid
          \<and> find (live_challenge now cid) (captcha_challenges d) = Some c
          \<and> cc_solution c = ''0'' \<and> body_solution req = Some v \<and> is_number v
        \<longrightarrow> status (snd (captcha_verify d now req)) = 400
          \<and> fst (captcha_verify d now req) = d)
   \<and> (\<forall>cid c v. body_challengeId req = Some cid \<and> cid \<noteq> []
          \<and> find (live_challenge now cid) (captcha_challenges d) = Some c
          \<and> cc_solution c = ''0'' \<and> body_solution req = Some v
        \<longrightarrow> (status (snd (captcha_verify d now req)) = 200
               \<longleftrightarrow> truthy (Some v) \<and> toString v = ''0''))"
proof -
  have gen: "snd (generateSimpleCaptcha k k False) = 0"
    by (simp add: generateSimpleCaptcha_def Let_def)
  have stored: "cc_solution (last (captcha_challenges
             (fst (createCaptchaChallenge d t0 uuid k k False ip)))) = ''0''"
    if "\<not> list_ex (\<lambda>c. challenge_id c = uuid) (captcha_challenges d)"
    using that gen
    by (simp add: createCaptchaChallenge_def split_def show_int_zero)
  have missing: "captcha_verify d now req =
          (d, \<lparr> status = 400,
                body = [(''error'', Some (JStr ''Challenge ID and solution are required''))] \<rparr>)"
    if "body_solution req = Some (JNum 0)"
    using that by (simp add: captcha_verify_def)
  have verdict: "snd (verifyCaptcha d now cid v) \<longleftrightarrow> toString v = ''0''"
    if "find (live_challenge now cid) (captcha_challenges d) = Some c" "cc_solution c = ''0''"
    for cid c v
    using that by (auto simp: verifyCaptcha_alone Let_def)
  have number: "status (snd (captcha_verify d now req)) = 400
                  \<and> fst (captcha_verify d now req) = d"
    if "body_challengeId req = Some cid"
      "find (live_challenge now cid) (captcha_challenges d) = Some c"
      "cc_solution c = ''0''" "body_solution req = Some v" "is_number v" for cid c v
  proof (cases "truthy (Some v)")
    case False
    with that(4) show ?thesis
      by (simp add: captcha_verify_def)
  next
    case True
    then have "toString v \<noteq> ''0''"
      using that(5) by (rule number_never_zero_text [rotated])
    then have wrong: "\<not> snd (verifyCaptcha d now cid v)"
      using verdict [OF that(2,3)] by simp
    then have "fst (verifyCaptcha d now cid v) = d"
      by (rule verifyCaptcha_failure_keeps_state)
    with wrong show ?thesis
      using that(1,4) by (simp add: captcha_verify_def split_def Let_def)
  qed
  have solved_by: "status (snd (captcha_verify d now req)) = 200
               \<longleftrightarrow> truthy (Some v) \<and> toString v = ''0''"
    if "body_challengeId req = Some cid" "cid \<noteq> []"
      "find (live_challenge now cid) (captcha_challenges d) = Some c"
      "cc_solution c = ''0''" "body_solution req = Some v" for cid c v
    using that(1,2,5) verdict [OF that(3,4), of v]
    by (simp add: captcha_verify_status)
  from gen stored missing number solved_by show ?thesis by blast
qed

theorem C10_zero_solved_by_truthy_text_zero_witness:
  "generateSimpleCaptcha 6 6 False = (''7 - 7'', 0)
   \<and> map cc_solution (captcha_challenges zero_db) = [''0'']
   \<and> captcha_verify zero_db 1100 zero_number_request =
        (zero_db, \<lparr> status = 400,
           body = [(''error'', Some (JStr ''Challenge ID and solution are required''))] \<rparr>)
   \<and> status (snd (captcha_verify zero_db 1100 fraction_request)) = 400
   \<and> fst (captcha_verify zero_db 1100 fraction_request) = zero_db
   \<and> status (snd (captcha_verify zero_db 1100 zero_string_request)) = 200"
proof -
  have q: "generateSimpleCaptcha 6 6 False = (''7 - 7'', 0)"
    by (simp add: generateSimpleCaptcha_def Let_def show_int_def show_nat_eval)
  note inst_num = C10_zero_solved_by_truthy_text_zero
    [where d = zero_db and now = 1100 and req = zero_number_request]
  note inst_frac = C10_zero_solved_by_truthy_text_zero
    [where d = zero_db and now = 1100 and req = fraction_request]
  note inst_str = C10_zero_solved_by_truthy_text_zero
    [where d = zero_db and now = 1100 and req = zero_string_request]
  have num: "captcha_verify zero_db 1100 zero_number_request =
        (zero_db, \<lparr> status = 400,
           body = [(''error'', Some (JStr ''Challenge ID and solution are required''))] \<rparr>)"
    using inst_num by (simp add: zero_number_request_def answer_request_fields)
  have "is_number (JDec ''0.5'')"
    by (simp add: is_number_def dec_text_def)
  with inst_frac zero_db_live
  have frac: "status (snd (captcha_verify zero_db 1100 fraction_request)) = 400
      \<and> fst (captcha_verify zero_db 1100 fraction_request) = zero_db"
    by (simp add: fraction_request_def answer_request_fields)
  have str: "status (snd (captcha_verify zero_db 1100 zero_string_request)) = 200"
    using inst_str zero_db_live
    by (simp add: zero_string_request_def answer_request_fields)
  from q num frac str show ?thesis
    by (simp add: zero_db_rows)
qed

section \<open>Properties of the vote route\<close>

lemma vote_denied:
  assumes "parseInt (req_params_id req) = Some sid"
    and "list_ex (same_vote sid (voterFingerprint req) today) (votes d)"
  shows "vote d today req =
           (d, \<lparr> status = 429,
                 body = [(''error'', Some (JStr
                   ''You can only vote once per day for this server from this device.''))] \<rparr>)"
  using assms by (simp add: vote_def)

lemma vote_permitted:
  assumes "parseInt (req_params_id req) = Some sid"
    and "\<not> list_ex (same_vote sid (voterFingerprint req) today) (votes d)"
  shows "status (snd (vote d today req)) = 200"
    and "votes (fst (vote d today req)) =
           votes d @ [\<lparr> v_server_id = sid, voter_hash = voterFingerprint req, voted_date = today \<rparr>]"
    and "servers (fst (vote d today req)) =
           map (\<lambda>s. if Finite (srv_id s) = sid then s\<lparr> srv_votes := srv_votes s + 1 \<rparr> else s) (servers d)"
  using assms by (simp_all add: vote_def Let_def)

lemma vote_records_key:
  assumes "parseInt (req_params_id req) = Some sid"
  shows "list_ex (same_vote sid (voterFingerprint req) today) (votes (fst (vote d today req)))"
proof (cases "list_ex (same_vote sid (voterFingerprint req) today) (votes d)")
  case True
  then show ?thesis
    using vote_denied [OF assms True] by simp
next
  case False
  then show ?thesis
    using vote_permitted(2) [OF assms False] by (simp add: same_vote_def)
qed

lemma vote_all_denied:
  assumes "list_ex (same_vote sid fp today) (votes d)"
    and "\<forall>r \<in> set reqs. parseInt (req_params_id r) = Some sid \<and> voterFingerprint r = fp"
  shows "vote_all d today reqs = d"
  using assms
proof (induction reqs)
  case Nil
  then show ?case by simp
next
  case (Cons r reqs)
  then have "vote d today r = (d, \<lparr> status = 429,
                 body = [(''error'', Some (JStr
                   ''You can only vote once per day for this server from this device.''))] \<rparr>)"
    using vote_denied [of r sid today d] by simp
  with Cons show ?case by simp
qed

lemma vote_keeps_records:
  "list_ex (same_vote sid fp date) (votes d) \<Longrightarrow>
     list_ex (same_vote sid fp date) (votes (fst (vote d today req)))"
  by (simp add: vote_def Let_def split: option.splits)

lemma vote_all_keeps_records:
  "list_ex (same_vote sid fp date) (votes d) \<Longrightarrow>
     list_ex (same_vote sid fp date) (votes (vote_all d today reqs))"
  by (induction reqs arbitrary: d) (simp_all add: vote_keeps_records)

text \<open>
  Claim C4. For a key (server id, voter fingerprint, day): an attempt with no stored
  record for the key is answered 200, appends the record and adds exactly one to the vote
  count of the server with that id (other servers unchanged); an attempt with a stored
  record is answered 429 and leaves the whole state unchanged. After any attempt the
  record is stored and later votes of any client keep it, so every later attempt with the
  same key on the same day is denied, and a run of attempts with one key counts one vote.
\<close>

theorem C4_one_vote_per_key_per_day:
  assumes sid: "parseInt (req_params_id req) = Some sid"
  shows "(\<not> list_ex (same_vote sid (voterFingerprint req) today) (votes d) \<longrightarrow>
            status (snd (vote d today req)) = 200
          \<and> votes (fst (vote d today req)) =
              votes d @ [\<lparr> v_server_id = sid, voter_hash = voterFingerprint req,
                           voted_date = today \<rparr>]
          \<and> servers (fst (vote d today req)) =
              map (\<lambda>s. if Finite (srv_id s) = sid then s\<lparr> srv_votes := srv_votes s + 1 \<rparr> else s)
                  (servers d))
       \<and> (list_ex (same_vote sid (voterFingerprint req) today) (votes d) \<longrightarrow>
            status (snd (vote d today req)) = 429 \<and> fst (vote d today req) = d)
       \<and> (\<forall>others req'. parseInt (req_params_id req') = Some sid
              \<and> voterFingerprint req' = voterFingerprint req \<longrightarrow>
            status (snd (vote (vote_all (fst (vote d today req)) today others) today req')) = 429
          \<and> fst (vote (vote_all (fst (vote d today req)) today others) today req')
              = vote_all (fst (vote d today req)) today others)
       \<and> (\<forall>reqs. (\<forall>r \<in> set reqs. parseInt (req_params_id r) = Some sid
                       \<and> voterFingerprint r = voterFingerprint req) \<longrightarrow>
            vote_all d today (req # reqs) = fst (vote d today req))"
proof -
  have again: "status (snd (vote (vote_all (fst (vote d today req)) today others) today req')) = 429
          \<and> fst (vote (vote_all (fst (vote d today req)) today others) today req')
              = vote_all (fst (vote d today req)) today others"
    if "parseInt (req_params_id req') = Some sid" "voterFingerprint req' = voterFingerprint req"
    for others req'
    using vote_denied [OF that(1), of today "vote_all (fst (vote d today req)) today others"]
      vote_all_keeps_records [OF vote_records_key [OF sid, of today d], of today others] that(2)
    by simp
  have run: "vote_all d today (req # reqs) = fst (vote d today req)"
    if "\<forall>r \<in> set reqs. parseInt (req_params_id r) = Some sid
          \<and> voterFingerprint r = voterFingerprint req" for reqs
    using vote_all_denied [OF vote_records_key [OF sid, of today d] that] by simp
  show ?thesis
    using vote_permitted [OF sid] vote_denied [OF sid] again run
    by simp
qed

lemma parse_seven: "parseInt ''7'' = Some (Finite 7)"
  by (simp add: parseInt_def to_double_def is_space_def is_digit_def digits_value_def Let_def)

theorem C4_one_vote_per_key_per_day_witness:
  "parseInt (req_params_id vote_request) = Some (Finite 7)
   \<and> status (snd (vote listing_db ''2026-11-02'' vote_request)) = 200
   \<and> map srv_votes (servers listing_db) = [3, 0]
   \<and> map srv_votes (servers (fst (vote listing_db ''2026-11-02'' vote_request))) = [4, 0]
   \<and> length (votes (fst (vote listing_db ''2026-11-02'' vote_request))) = 1
   \<and> status (snd (vote (fst (vote listing_db ''2026-11-02'' vote_request))
         ''2026-11-02'' vote_request)) = 429
   \<and> vote_all listing_db ''2026-11-02'' [vote_request, vote_request, vote_request]
       = fst (vote listing_db ''2026-11-02'' vote_request)"
proof -
  have sid: "parseInt (req_params_id vote_request) = Some (Finite 7)"
    by (simp add: vote_request_def parse_seven)
  have fresh: "\<not> list_ex (same_vote (Finite 7) (voterFingerprint vote_request) ''2026-11-02'')
                   (votes listing_db)"
    by (simp add: listing_db_def empty_db_def)
  note inst = C4_one_vote_per_key_per_day [OF sid, of "''2026-11-02''" listing_db]
  have first: "status (snd (vote listing_db ''2026-11-02'' vote_request)) = 200"
    "map srv_votes (servers (fst (vote listing_db ''2026-11-02'' vote_request))) = [4, 0]"
    "length (votes (fst (vote listing_db ''2026-11-02'' vote_request))) = 1"
    using inst fresh by (simp_all add: listing_db_def empty_db_def)
  from inst sid
  have "status (snd (vote (vote_all (fst (vote listing_db ''2026-11-02'' vote_request))
           ''2026-11-02'' []) ''2026-11-02'' vote_request)) = 429"
    by blast
  then have second: "status (snd (vote (fst (vote listing_db ''2026-11-02'' vote_request))
         ''2026-11-02'' vote_request)) = 429"
    by simp
  from inst
  have "(\<forall>r \<in> set [vote_request, vote_request].
           parseInt (req_params_id r) = Some (Finite 7)
           \<and> voterFingerprint r = voterFingerprint vote_request) \<longrightarrow>
        vote_all listing_db ''2026-11-02'' (vote_request # [vote_request, vote_request])
          = fst (vote listing_db ''2026-11-02'' vote_request)"
    by blast
  then have run: "vote_all listing_db ''2026-11-02'' [vote_request, vote_request, vote_request]
       = fst (vote listing_db ''2026-11-02'' vote_request)"
    using sid by simp
  from sid first second run show ?thesis
    by (simp add: listing_db_def empty_db_def)
qed

section \<open>Properties of the blacklist guard\<close>

lemma blacklisted_rejected:
  "isBlacklisted d now (req_ip req) \<Longrightarrow>
     snd (botDetectionMiddleware uap now d req) = Respond forbidden
     \<and> bot_scores (fst (botDetectionMiddleware uap now d req)) = bot_scores d"
  by (simp add: botDetectionMiddleware_def forbidden_def logSecurityEvent_def)

lemma permanent_entry:
  "r \<in> set (ip_blacklist d) \<Longrightarrow> bl_ip_address r = ip \<Longrightarrow> blocked_until r = None \<Longrightarrow>
     isBlacklisted d now ip"
  by (auto simp: isBlacklisted_def find_None_iff active_entry_def)

lemma text_less_after_prefix:
  "text_less (p @ CHR '' '' # a) (p @ CHR ''T'' # b)"
  by (induction p) simp_all

text \<open>
  Whatever the times of day, an entry written by the admin route counts as active for
  the whole UTC date of its \<open>blockedUntil\<close>.
\<close>

lemma same_date_entry_active:
  assumes "year now = year until" "month now = month until" "day now = day until"
  shows "text_less (sqlite_datetime now) (toISOString until)"
proof -
  let ?date = "pad 4 (year until) @ ''-'' @ pad 2 (month until) @ ''-'' @ pad 2 (day until)"
  have "sqlite_datetime now =
          ?date @ CHR '' '' # (pad 2 (hour now) @ '':'' @ pad 2 (minute now) @ '':'' @
            pad 2 (second now))"
    using assms by (simp add: sqlite_datetime_def)
  moreover have "toISOString until =
          ?date @ CHR ''T'' # (pad 2 (hour until) @ '':'' @ pad 2 (minute until) @ '':'' @
            pad 2 (second until) @ ''.'' @ pad 3 (millis until) @ ''Z'')"
    by (simp add: toISOString_def)
  ultimately show ?thesis
    by (simp only: text_less_after_prefix)
qed

lemma replicate_eval:
  "replicate 1 x = [x]" "replicate 2 x = [x, x]" "replicate 3 x = [x, x, x]"
  by (simp_all add: eval_nat_numeral)

lemma ban_texts:
  "toISOString ban_until = ''2026-11-02T07:00:00.000Z''"
  "sqlite_datetime request_time = ''2026-11-02 08:00:00''"
  "sqlite_datetime next_morning = ''2026-11-03 08:00:00''"
  by (simp_all add: toISOString_def sqlite_datetime_def ban_until_def request_time_def
      next_morning_def pad_def show_nat_eval replicate_eval)

lemma banned_db_rows:
  "ip_blacklist banned_db =
     [\<lparr> bl_ip_address = ''198.51.100.4'', bl_reason = ''spam'',
        blocked_until = Some ''2026-11-02T07:00:00.000Z'', bl_created_by = Some 1 \<rparr>]"
  by (simp add: banned_db_def blacklist_insert_def empty_db_def ban_texts)

text \<open>
  Claim C2 at a ban that ran out an hour before the request. The stored
  \<open>blocked_until\<close> is the \<open>toISOString\<close> text, with \<open>T\<close> after the date;
  \<open>datetime("now")\<close> has a space there. On the same UTC date the texts first differ at
  that position and \<open>T\<close> is the greater byte, so the expired entry still counts as active
  and the browser request, whose score is 0, is answered 403. The entry stops matching
  only when the date changes (\<open>same_date_entry_active\<close> has the general fact).
\<close>

theorem C2_expired_ban_still_rejected:
  "utc_before ban_until request_time
   \<and> map blocked_until (ip_blacklist banned_db) = [Some (toISOString ban_until)]
   \<and> isBlacklisted banned_db (sqlite_datetime request_time) (req_ip browser_request)
   \<and> snd (botDetectionMiddleware parser_firefox (sqlite_datetime request_time) banned_db
            browser_request) = Respond forbidden
   \<and> calculateBotScore browser_request = 0
   \<and> \<not> isBlacklisted banned_db (sqlite_datetime next_morning) (req_ip browser_request)"
proof -
  have before: "utc_before ban_until request_time"
    by (simp add: utc_before_def utc_key_def ban_until_def request_time_def)
  have rows: "map blocked_until (ip_blacklist banned_db) = [Some (toISOString ban_until)]"
    by (simp add: banned_db_rows ban_texts)
  have active: "isBlacklisted banned_db (sqlite_datetime request_time) (req_ip browser_request)"
    by (simp add: isBlacklisted_def banned_db_rows ban_texts active_entry_def
        browser_request_fields)
  have later: "\<not> isBlacklisted banned_db (sqlite_datetime next_morning) (req_ip browser_request)"
    by (simp add: isBlacklisted_def banned_db_rows ban_texts active_entry_def
        browser_request_fields)
  from before rows active later blacklisted_rejected [OF active] score_browser
  show ?thesis by simp
qed

end
